theory Spec2Isabelle
  imports Complex_Main
begin

section \<open>Python exceptions as values\<close>

text \<open>
  Every \<^verbatim>\<open>raise\<close> of the modelled functions, and every run-time error of a Python
  operation they perform (indexing, unpacking, a call with the wrong number of
  arguments), is a value of this type. Coordinates are Python floats; they are modelled
  as real numbers, so rounding and NaN are outside the model.
\<close>

datatype py_error =
    ValueError string
  | TypeError string
  | KeyError string
  | IndexError string
  | AttributeError string

text \<open>
  \<^verbatim>\<open>raise "Wrong bounding box param"\<close> in \<^verbatim>\<open>BoundingBox.update\<close> raises a
  string; Python 3 turns this into the following TypeError.
\<close>

definition wrong_bounding_box_param :: py_error where
  "wrong_bounding_box_param = TypeError ''exceptions must derive from BaseException''"

section \<open>Bounding volumes (ocp\_utils.py)\<close>

text \<open>
  Python's builtin \<^verbatim>\<open>min(a, b)\<close> keeps its first argument unless the second is
  strictly smaller; \<^verbatim>\<open>max(a, b)\<close> keeps the first unless the second is strictly
  larger.
\<close>

definition py_min :: "real \<Rightarrow> real \<Rightarrow> real" where
  "py_min a b = (if b < a then b else a)"

definition py_max :: "real \<Rightarrow> real \<Rightarrow> real" where
  "py_max a b = (if a < b then b else a)"

text \<open>\<^verbatim>\<open>max([x0, x1, ...])\<close> over a non-empty list.\<close>

fun py_max_list :: "real list \<Rightarrow> real" where
  "py_max_list [] = 0"
| "py_max_list (x # xs) = foldl py_max x xs"

type_synonym vec3 = "real \<times> real \<times> real"

text \<open>The dictionary with the six keys xmin .. zmax that \<^verbatim>\<open>np_bbox\<close> returns.\<close>

record bbdict =
  d_xmin :: real
  d_xmax :: real
  d_ymin :: real
  d_ymax :: real
  d_zmin :: real
  d_zmax :: real

text \<open>The attributes of a \<^verbatim>\<open>BoundingBox\<close> object (\<^verbatim>\<open>self.max\<close> is \<open>maxabs\<close>).\<close>

record BoundingBox =
  optimal :: bool
  xmin :: real
  xmax :: real
  ymin :: real
  ymax :: real
  zmin :: real
  zmax :: real
  xsize :: real
  ysize :: real
  zsize :: real
  center :: vec3
  maxabs :: real

text \<open>\<^verbatim>\<open>BoundingBox._calc\<close>: the derived attributes.\<close>

definition BoundingBox_calc :: "BoundingBox \<Rightarrow> BoundingBox" where
  "BoundingBox_calc self =
     (let s1 = self\<lparr>xsize := xmax self - xmin self\<rparr>;
          s2 = s1\<lparr>ysize := ymax s1 - ymin s1\<rparr>;
          s3 = s2\<lparr>zsize := zmax s2 - zmin s2\<rparr>;
          s4 = s3\<lparr>center := (xmin s3 + xsize s3 / 2, ymin s3 + ysize s3 / 2,
                              zmin s3 + zsize s3 / 2)\<rparr>
      in s4\<lparr>maxabs := py_max_list (map abs
              [xmin s4, xmax s4, ymin s4, ymax s4, zmin s4, zmax s4])\<rparr>)"

text \<open>
  The result of the kernel's \<^verbatim>\<open>Bnd_Box\<close> after \<^verbatim>\<open>BRepBndLib.Add_s\<close> or
  \<^verbatim>\<open>AddOptimal_s\<close>: void, or the six values of \<^verbatim>\<open>bbox.Get()\<close> in the kernel's
  order (xmin, ymin, zmin, xmax, ymax, zmax).
\<close>

datatype Bnd_Box = Void | Values real real real real real real

text \<open>
  The kernel calls of \<^verbatim>\<open>BoundingBox\<close>, taken as parameters: the box the kernel adds
  for a shape (fast and optimal variant) and the centre of mass of
  \<^verbatim>\<open>BRepGProp.VolumeProperties_s\<close>.
\<close>

record 's bb_kernel =
  Add_s :: "'s \<Rightarrow> Bnd_Box"
  AddOptimal_s :: "'s \<Rightarrow> Bnd_Box"
  CentreOfMass :: "'s \<Rightarrow> vec3"

text \<open>
  What \<^verbatim>\<open>print\<close> writes: the void-box message with the six values, the skipping
  message with the slot name and the type of the value, the mark of the progress object,
  and the lines of \<^verbatim>\<open>_debug(level, msg, name)\<close> (the module sets \<^verbatim>\<open>DEBUG = True\<close>).
\<close>

datatype diagnostic =
    Void_Bounding_Box "real \<times> real \<times> real \<times> real \<times> real \<times> real"
  | Skipping_object "string option" string
  | Progress_mark string
  | Debug nat string "string option"

definition tol_default :: real where
  "tol_default = 1 / 1000000"

text \<open>
  \<^verbatim>\<open>BoundingBox._center_of_mass\<close> and \<^verbatim>\<open>BoundingBox._bounding_box(obj, tol=1e-6)\<close>.
  The result is the tuple (xmin, xmax, ymin, ymax, zmin, zmax) and the printed lines.
\<close>

definition BoundingBox_center_of_mass :: "'s bb_kernel \<Rightarrow> 's \<Rightarrow> vec3" where
  "BoundingBox_center_of_mass K obj = CentreOfMass K obj"

definition BoundingBox_bounding_box ::
  "'s bb_kernel \<Rightarrow> bool \<Rightarrow> 's \<Rightarrow> real \<Rightarrow>
     (real \<times> real \<times> real \<times> real \<times> real \<times> real) \<times> diagnostic list" where
  "BoundingBox_bounding_box K opt obj tol =
     (let bbox = (if opt then AddOptimal_s K obj else Add_s K obj) in
      case bbox of
        Values v0 v1 v2 v3 v4 v5 \<Rightarrow> ((v0, v3, v1, v4, v2, v5), [])
      | Void \<Rightarrow>
          (case BoundingBox_center_of_mass K obj of (c0, c1, c2) \<Rightarrow>
             (let bb = (c0 - tol, c0 + tol, c1 - tol, c1 + tol, c2 - tol, c2 + tol)
              in (bb, [Void_Bounding_Box bb]))))"

text \<open>The argument \<^verbatim>\<open>obj\<close> of \<^verbatim>\<open>BoundingBox.__init__\<close>, by the tests made on it.\<close>

datatype 's bb_source =
    FromNone
  | FromBoundingBox BoundingBox
  | FromDict bbdict
  | FromShape 's

definition raw_box :: "bool \<Rightarrow> real \<times> real \<times> real \<times> real \<times> real \<times> real \<Rightarrow> BoundingBox" where
  "raw_box opt v = (case v of (x0, x1, y0, y1, z0, z1) \<Rightarrow>
     \<lparr>optimal = opt, xmin = x0, xmax = x1, ymin = y0, ymax = y1, zmin = z0, zmax = z1,
      xsize = 0, ysize = 0, zsize = 0, center = (0, 0, 0), maxabs = 0\<rparr>)"

definition BoundingBox_init ::
  "'s bb_kernel \<Rightarrow> 's bb_source \<Rightarrow> bool \<Rightarrow> BoundingBox \<times> diagnostic list" where
  "BoundingBox_init K obj opt =
     (case obj of
        FromNone \<Rightarrow> (BoundingBox_calc (raw_box opt (0, 0, 0, 0, 0, 0)), [])
      | FromBoundingBox b \<Rightarrow>
          (BoundingBox_calc (raw_box opt (xmin b, xmax b, ymin b, ymax b, zmin b, zmax b)), [])
      | FromDict d \<Rightarrow>
          (BoundingBox_calc
             (raw_box opt (d_xmin d, d_xmax d, d_ymin d, d_ymax d, d_zmin d, d_zmax d)), [])
      | FromShape s \<Rightarrow>
          (case BoundingBox_bounding_box K opt s tol_default of
             (bbox, out) \<Rightarrow> (BoundingBox_calc (raw_box opt bbox), out)))"

text \<open>
  The argument \<^verbatim>\<open>bb\<close> of \<^verbatim>\<open>BoundingBox.update\<close>, by the tests made on it:
  a \<^verbatim>\<open>BoundingBox\<close>, a dictionary, or anything else; \<^verbatim>\<open>None\<close> is the value of the
  last kind that the callers in convert.py can pass.
\<close>

datatype bb_arg =
    ArgBoundingBox BoundingBox
  | ArgDict bbdict
  | ArgNone

definition BoundingBox_update ::
  "BoundingBox \<Rightarrow> bb_arg \<Rightarrow> bool \<Rightarrow> py_error + BoundingBox" where
  "BoundingBox_update self bb minimize =
     (let lower = (if minimize then py_max else py_min);
          upper = (if minimize then py_min else py_max) in
      case bb of
        ArgBoundingBox b \<Rightarrow>
          Inr (BoundingBox_calc (self\<lparr>
            xmin := lower (xmin b) (xmin self), xmax := upper (xmax b) (xmax self),
            ymin := lower (ymin b) (ymin self), ymax := upper (ymax b) (ymax self),
            zmin := lower (zmin b) (zmin self), zmax := upper (zmax b) (zmax self)\<rparr>))
      | ArgDict d \<Rightarrow>
          Inr (BoundingBox_calc (self\<lparr>
            xmin := lower (d_xmin d) (xmin self), xmax := upper (d_xmax d) (xmax self),
            ymin := lower (d_ymin d) (ymin self), ymax := upper (d_ymax d) (ymax self),
            zmin := lower (d_zmin d) (zmin self), zmax := upper (d_zmax d) (zmax self)\<rparr>))
      | ArgNone \<Rightarrow> Inl wrong_bounding_box_param)"


section \<open>The bounding box of a mesh (np\_bbox)\<close>

text \<open>A quaternion as four floats; \<^verbatim>\<open>loc_to_tq\<close> orders them (x, y, z, w).\<close>

type_synonym quat = "real \<times> real \<times> real \<times> real"

text \<open>
  \<^verbatim>\<open>p.reshape(-1, 3)\<close> of a flat buffer: rows of three, and a NumPy ValueError when
  the size is not a multiple of three.
\<close>

fun reshape3 :: "real list \<Rightarrow> vec3 list option" where
  "reshape3 [] = Some []"
| "reshape3 (x # y # z # r) = map_option ((#) (x, y, z)) (reshape3 r)"
| "reshape3 _ = None"

text \<open>\<^verbatim>\<open>np.min(v, axis=0)\<close> and \<^verbatim>\<open>np.max(v, axis=0)\<close> on one column.\<close>

fun np_min :: "real list \<Rightarrow> real" where
  "np_min [] = 0"
| "np_min (x # xs) = foldl min x xs"

fun np_max :: "real list \<Rightarrow> real" where
  "np_max [] = 0"
| "np_max (x # xs) = foldl max x xs"

definition vx :: "vec3 \<Rightarrow> real" where "vx v = fst v"
definition vy :: "vec3 \<Rightarrow> real" where "vy v = fst (snd v)"
definition vz :: "vec3 \<Rightarrow> real" where "vz v = snd (snd v)"

definition vadd :: "vec3 \<Rightarrow> vec3 \<Rightarrow> vec3" where
  "vadd a b = (vx a + vx b, vy a + vy b, vz a + vz b)"

definition minmax_dict :: "vec3 list \<Rightarrow> bbdict" where
  "minmax_dict v =
     \<lparr>d_xmin = np_min (map vx v), d_xmax = np_max (map vx v),
      d_ymin = np_min (map vy v), d_ymax = np_max (map vy v),
      d_zmin = np_min (map vz v), d_zmax = np_max (map vz v)\<rparr>"

text \<open>
  \<^verbatim>\<open>np_bbox(p, t, q)\<close>. The rotation \<^verbatim>\<open>rotate_vectors\<close> of the quaternion package is a
  parameter; it receives the quaternion as \<^verbatim>\<open>np.quaternion(q[-1], *q[:-1])\<close>, that is
  in the order (w, x, y, z). When exactly one of \<^verbatim>\<open>t\<close> and \<^verbatim>\<open>q\<close> is \<^verbatim>\<open>None\<close> the
  else branch fails with a TypeError (subscripting or adding \<^verbatim>\<open>None\<close>).
\<close>

definition np_bbox ::
  "(quat \<Rightarrow> vec3 \<Rightarrow> vec3) \<Rightarrow> real list \<Rightarrow> vec3 option \<Rightarrow> quat option \<Rightarrow>
     py_error + bbdict option" where
  "np_bbox rotate_vectors p t q =
     (if length p = 0 then Inr None
      else case reshape3 p of
        None \<Rightarrow> Inl (ValueError ''cannot reshape array into shape (3)'')
      | Some n_p \<Rightarrow>
          (case (t, q) of
             (None, None) \<Rightarrow> Inr (Some (minmax_dict n_p))
           | (Some n_t, Some (qx, qy, qz, qw)) \<Rightarrow>
               Inr (Some (minmax_dict
                 (map (\<lambda>x. vadd (rotate_vectors (qw, qx, qy, qz) x) n_t) n_p)))
           | (None, Some _) \<Rightarrow> Inl (TypeError ''unsupported operand type: NoneType'')
           | (Some _, None) \<Rightarrow> Inl (TypeError ''NoneType object is not subscriptable'')))"

section \<open>The tree of shape dictionaries\<close>

text \<open>
  \<^verbatim>\<open>tessellate_group\<close> and \<^verbatim>\<open>combined_bb\<close> walk the nested dictionaries returned by
  \<^verbatim>\<open>group.collect\<close>. A dictionary whose \<^verbatim>\<open>parts\<close> entry is not \<^verbatim>\<open>None\<close> is an inner
  node; any other is a leaf, of which the code reads \<^verbatim>\<open>type\<close>,
  \<^verbatim>\<open>shape["ref"]\<close>, \<^verbatim>\<open>loc\<close> and \<^verbatim>\<open>bb\<close>.
\<close>

datatype leaf_shape = Ref nat | Inline

datatype bb_val = NoneV | DictV bbdict | BoxV BoundingBox

record leaf =
  l_type :: string
  l_shape :: leaf_shape
  l_loc :: "(vec3 option \<times> quat option) option"
  l_bb :: "bb_val option"

datatype shapes = Parts "shapes list" | Leaf leaf

text \<open>A mesh: the dictionary \<^verbatim>\<open>tessellate\<close> returns, of which \<^verbatim>\<open>vertices\<close> is read.\<close>

record 'm mesh =
  vertices :: "real list"
  payload :: 'm

definition arg_of_np_bbox :: "bbdict option \<Rightarrow> bb_arg" where
  "arg_of_np_bbox r = (case r of None \<Rightarrow> ArgNone | Some d \<Rightarrow> ArgDict d)"

definition val_of_np_bbox :: "bbdict option \<Rightarrow> bb_val" where
  "val_of_np_bbox r = (case r of None \<Rightarrow> NoneV | Some d \<Rightarrow> DictV d)"

text \<open>
  The nested function \<^verbatim>\<open>_add_bb\<close> of \<^verbatim>\<open>tessellate_group\<close>: the loop over
  \<^verbatim>\<open>shapes["parts"]\<close>, with the closure variables \<^verbatim>\<open>meshed_instances\<close> and
  \<^verbatim>\<open>overall_bb\<close> as arguments, the latter returned updated together with the tree, whose
  leaves receive their \<^verbatim>\<open>bb\<close> entry.
\<close>

fun add_bb_loop ::
  "(quat \<Rightarrow> vec3 \<Rightarrow> vec3) \<Rightarrow> 'm mesh list \<Rightarrow> shapes list \<Rightarrow> BoundingBox \<Rightarrow>
     py_error + (shapes list \<times> BoundingBox)" where
  "add_bb_loop R ms [] ob = Inr ([], ob)"
| "add_bb_loop R ms (Leaf l # rest) ob =
     (if l_type l = ''shapes'' then
        (case l_shape l of
           Inline \<Rightarrow> Inl (KeyError ''ref'')
         | Ref ind \<Rightarrow>
             if \<not> ind < length ms then Inl (IndexError ''list index out of range'')
             else (case l_loc l of
                None \<Rightarrow> Inl (TypeError ''argument after * must be an iterable'')
              | Some (t, q) \<Rightarrow>
                  (case np_bbox R (vertices (ms ! ind)) t q of
                     Inl e \<Rightarrow> Inl e
                   | Inr r \<Rightarrow>
                       (case BoundingBox_update ob (arg_of_np_bbox r) False of
                          Inl e \<Rightarrow> Inl e
                        | Inr ob' \<Rightarrow>
                            (case add_bb_loop R ms rest ob' of
                               Inl e \<Rightarrow> Inl e
                             | Inr (rest', ob'') \<Rightarrow>
                                 Inr (Leaf (l\<lparr>l_bb := Some (val_of_np_bbox r)\<rparr>) # rest',
                                      ob''))))))
      else (case add_bb_loop R ms rest ob of
              Inl e \<Rightarrow> Inl e
            | Inr (rest', ob') \<Rightarrow> Inr (Leaf l # rest', ob')))"
| "add_bb_loop R ms (Parts ps # rest) ob =
     (case add_bb_loop R ms ps ob of
        Inl e \<Rightarrow> Inl e
      | Inr (ps', ob') \<Rightarrow>
          (case add_bb_loop R ms rest ob' of
             Inl e \<Rightarrow> Inl e
           | Inr (rest', ob'') \<Rightarrow> Inr (Parts ps' # rest', ob'')))"

definition add_bb ::
  "(quat \<Rightarrow> vec3 \<Rightarrow> vec3) \<Rightarrow> 'm mesh list \<Rightarrow> shapes \<Rightarrow> BoundingBox \<Rightarrow>
     py_error + (shapes \<times> BoundingBox)" where
  "add_bb R ms sh ob =
     (case sh of
        Leaf l \<Rightarrow> Inl (KeyError ''parts'')
      | Parts ps \<Rightarrow>
          (case add_bb_loop R ms ps ob of
             Inl e \<Rightarrow> Inl e
           | Inr (ps', ob') \<Rightarrow> Inr (Parts ps', ob')))"

text \<open>
  \<^verbatim>\<open>combined_bb\<close> with its nested \<^verbatim>\<open>c_bb\<close>: the fold of the leaves' boxes into one
  box. Each leaf's \<^verbatim>\<open>bb\<close> entry is read (a KeyError when it is absent) and deleted.
\<close>

definition new_box :: "bb_val \<Rightarrow> BoundingBox" where
  "new_box v =
     (case v of
        NoneV \<Rightarrow> BoundingBox_calc (raw_box False (0, 0, 0, 0, 0, 0))
      | DictV d \<Rightarrow> BoundingBox_calc
          (raw_box False (d_xmin d, d_xmax d, d_ymin d, d_ymax d, d_zmin d, d_zmax d))
      | BoxV b \<Rightarrow> BoundingBox_calc
          (raw_box False (xmin b, xmax b, ymin b, ymax b, zmin b, zmax b)))"

definition c_bb_leaf :: "BoundingBox option \<Rightarrow> bb_val \<Rightarrow> py_error + BoundingBox option" where
  "c_bb_leaf bb v =
     (case bb of
        None \<Rightarrow> Inr (Some (new_box v))
      | Some b \<Rightarrow>
          (case v of
             NoneV \<Rightarrow> Inr (Some b)
           | DictV d \<Rightarrow> map_sum id Some (BoundingBox_update b (ArgDict d) False)
           | BoxV b2 \<Rightarrow> map_sum id Some (BoundingBox_update b (ArgBoundingBox b2) False)))"

fun c_bb_loop ::
  "shapes list \<Rightarrow> BoundingBox option \<Rightarrow> py_error + (shapes list \<times> BoundingBox option)" where
  "c_bb_loop [] bb = Inr ([], bb)"
| "c_bb_loop (Leaf l # rest) bb =
     (case l_bb l of
        None \<Rightarrow> Inl (KeyError ''bb'')
      | Some v \<Rightarrow>
          (case c_bb_leaf bb v of
             Inl e \<Rightarrow> Inl e
           | Inr bb' \<Rightarrow>
               (case c_bb_loop rest bb' of
                  Inl e \<Rightarrow> Inl e
                | Inr (rest', bb'') \<Rightarrow> Inr (Leaf (l\<lparr>l_bb := None\<rparr>) # rest', bb''))))"
| "c_bb_loop (Parts ps # rest) bb =
     (case c_bb_loop ps bb of
        Inl e \<Rightarrow> Inl e
      | Inr (ps', bb') \<Rightarrow>
          (case c_bb_loop rest bb' of
             Inl e \<Rightarrow> Inl e
           | Inr (rest', bb'') \<Rightarrow> Inr (Parts ps' # rest', bb'')))"

definition combined_bb :: "shapes \<Rightarrow> py_error + (shapes \<times> BoundingBox option)" where
  "combined_bb sh =
     (case sh of
        Leaf l \<Rightarrow> Inl (KeyError ''parts'')
      | Parts ps \<Rightarrow>
          (case c_bb_loop ps None of
             Inl e \<Rightarrow> Inl e
           | Inr (ps', bb) \<Rightarrow> Inr (Parts ps', bb)))"

text \<open>The boxes of the leaves of a tree, in the order the loops visit them.\<close>

fun leaf_boxes :: "shapes list \<Rightarrow> bb_val option list" where
  "leaf_boxes [] = []"
| "leaf_boxes (Leaf l # rest) = l_bb l # leaf_boxes rest"
| "leaf_boxes (Parts ps # rest) = leaf_boxes ps @ leaf_boxes rest"

section \<open>Auxiliary functions for the statements\<close>

text \<open>The six extents of a box, in the order of \<^verbatim>\<open>BoundingBox.__repr__\<close>.\<close>

definition extents :: "BoundingBox \<Rightarrow> real \<times> real \<times> real \<times> real \<times> real \<times> real" where
  "extents b = (xmin b, xmax b, ymin b, ymax b, zmin b, zmax b)"

text \<open>
  One step of the fold of \<^verbatim>\<open>combined_bb\<close> on a dictionary, and the fold over the
  dictionaries of the leaves: the first leaf creates the box, the others update it.
\<close>

definition hull_step :: "BoundingBox \<Rightarrow> bbdict \<Rightarrow> BoundingBox" where
  "hull_step b d = BoundingBox_calc (b\<lparr>
            xmin := py_min (d_xmin d) (xmin b), xmax := py_max (d_xmax d) (xmax b),
            ymin := py_min (d_ymin d) (ymin b), ymax := py_max (d_ymax d) (ymax b),
            zmin := py_min (d_zmin d) (zmin b), zmax := py_max (d_zmax d) (zmax b)\<rparr>)"

fun fold_boxes :: "BoundingBox option \<Rightarrow> bbdict list \<Rightarrow> BoundingBox option" where
  "fold_boxes bb [] = bb"
| "fold_boxes None (d # ds) = fold_boxes (Some (new_box (DictV d))) ds"
| "fold_boxes (Some b) (d # ds) = fold_boxes (Some (hull_step b d)) ds"

text \<open>A leaf dictionary of type \<^verbatim>\<open>shapes\<close> with a box, and a box dictionary.\<close>

definition leaf_with_box :: "bbdict \<Rightarrow> shapes" where
  "leaf_with_box d =
     Leaf \<lparr>l_type = ''shapes'', l_shape = Ref 0, l_loc = Some (None, None), l_bb = Some (DictV d)\<rparr>"

definition box_dict :: "real \<Rightarrow> real \<Rightarrow> real \<Rightarrow> real \<Rightarrow> real \<Rightarrow> real \<Rightarrow> bbdict" where
  "box_dict x0 x1 y0 y1 z0 z1 =
     \<lparr>d_xmin = x0, d_xmax = x1, d_ymin = y0, d_ymax = y1, d_zmin = z0, d_zmax = z1\<rparr>"

text \<open>The leaves of a tree of shape dictionaries, in traversal order.\<close>

fun shapes_leaves :: "shapes list \<Rightarrow> leaf list" where
  "shapes_leaves [] = []"
| "shapes_leaves (Leaf l # rest) = l # shapes_leaves rest"
| "shapes_leaves (Parts ps # rest) = shapes_leaves ps @ shapes_leaves rest"

text \<open>
  A leaf that \<^verbatim>\<open>_add_bb\<close> can process up to the call of \<^verbatim>\<open>update\<close>: it is not of type
  \<^verbatim>\<open>shapes\<close>, or its reference is an index of the list of meshes, the vertex buffer of
  that mesh has a multiple of three entries, and its \<^verbatim>\<open>loc\<close> is a pair that is
  \<^verbatim>\<open>(None, None)\<close> or a translation with a quaternion.
\<close>

definition leaf_ok :: "'m mesh list \<Rightarrow> leaf \<Rightarrow> bool" where
  "leaf_ok ms l =
     (if l_type l = ''shapes'' then
        (case l_shape l of
           Inline \<Rightarrow> False
         | Ref ind \<Rightarrow> ind < length ms \<and> length (vertices (ms ! ind)) mod 3 = 0 \<and>
             (case l_loc l of
                None \<Rightarrow> False
              | Some (t, q) \<Rightarrow> (t = None) = (q = None)))
      else True)"

text \<open>A leaf of type \<^verbatim>\<open>shapes\<close> that refers to a mesh with an empty vertex buffer.\<close>

definition leaf_empty_mesh :: "'m mesh list \<Rightarrow> leaf \<Rightarrow> bool" where
  "leaf_empty_mesh ms l =
     (l_type l = ''shapes'' \<and>
      (case l_shape l of Inline \<Rightarrow> False | Ref ind \<Rightarrow> ind < length ms \<and> vertices (ms ! ind) = []))"

text \<open>The zero box \<^verbatim>\<open>BoundingBox()\<close> that \<^verbatim>\<open>tessellate_group\<close> starts the fold with.\<close>

definition zero_box :: BoundingBox where
  "zero_box = BoundingBox_calc (raw_box False (0, 0, 0, 0, 0, 0))"

definition demo_bb_kernel :: "nat bb_kernel" where
  "demo_bb_kernel = \<lparr>Add_s = (\<lambda>s. Void), AddOptimal_s = (\<lambda>s. Void), CentreOfMass = (\<lambda>s. (1, 2, 3))\<rparr>"

definition demo_mesh :: "real list \<Rightarrow> unit mesh" where
  "demo_mesh p = \<lparr>vertices = p, payload = ()\<rparr>"

definition demo_leaf :: "nat \<Rightarrow> shapes" where
  "demo_leaf i =
     Leaf \<lparr>l_type = ''shapes'', l_shape = Ref i, l_loc = Some (None, None), l_bb = None\<rparr>"

section \<open>Colours\<close>

text \<open>
  Modelled from the spec: the class \<^verbatim>\<open>Color\<close> of utils.py, which is not part of the
  sources at hand. The spec gives an object's colour as RGBA; the code reads the
  attributes \<^verbatim>\<open>percentage\<close> (red, green, blue) and \<^verbatim>\<open>a\<close> (alpha) and assigns
  \<^verbatim>\<open>a\<close>.
\<close>

record color_obj =
  percentage :: "real \<times> real \<times> real"
  a_chan :: real

text \<open>
  The values passed as colours: a colour name, a tuple of three integers, the tuple of
  four floats that \<^verbatim>\<open>get_rgba\<close> returns, a \<^verbatim>\<open>Color\<close> object, and a kernel colour
  (\<^verbatim>\<open>Quantity_ColorRGBA\<close>, or an object wrapping one) with its red, green, blue and
  alpha.
\<close>

datatype colour =
    ColorName string
  | ColorRGB int int int
  | ColorTuple real real real real
  | ColorObj color_obj
  | OcpColor real real real real

section \<open>The geometry kernel and the missing helpers, as parameters\<close>

text \<open>
  The calls into the geometry kernel (OCP) and into the modules of the package that are
  not part of the sources at hand (\<^verbatim>\<open>Color\<close>, \<^verbatim>\<open>make_unique\<close> and \<^verbatim>\<open>type_name\<close> of
  utils.py, \<^verbatim>\<open>get_default\<close> of defaults.py, \<^verbatim>\<open>list_topods_compound\<close>,
  \<^verbatim>\<open>get_compound_type\<close> and \<^verbatim>\<open>class_name\<close>) are the fields of one record. Shapes \<open>'s\<close> and locations \<open>'l\<close> are arbitrary types;
  the kernel's \<^verbatim>\<open>==\<close> on shapes is equality of the values of \<open>'s\<close>.
  \<open>shape_color\<close> is the attribute \<^verbatim>\<open>color\<close> of a shape, \<open>None\<close> when the attribute
  is missing or \<^verbatim>\<open>None\<close>.
\<close>

record ('s, 'l) env =
  Location :: "'s \<Rightarrow> 'l"
  Moved :: "'s \<Rightarrow> 'l \<Rightarrow> 's"
  Inverted :: "'l \<Rightarrow> 'l"
  downcast :: "'s \<Rightarrow> 's"
  is_topods_compound :: "'s \<Rightarrow> bool"
  list_topods_compound :: "'s \<Rightarrow> 's list"
  make_compound :: "'s list \<Rightarrow> 's"
  shape_color :: "'s \<Rightarrow> colour option"
  class_name :: "'s \<Rightarrow> string"
  serialize :: "'s \<Rightarrow> nat list"
  sha256 :: "nat list \<Rightarrow> string"
  Color :: "colour option \<Rightarrow> color_obj"
  default_color :: colour
  make_unique :: "string option list \<Rightarrow> string option list"
  identity_location :: 'l
  is_topods_wire :: "'s \<Rightarrow> bool"
  get_edges :: "'s \<Rightarrow> 's list"
  get_compound_type :: "'s \<Rightarrow> string"
  type_name :: "'s \<Rightarrow> string"

text \<open>
  What the converter passes around as geometry: one kernel shape, or a Python list
  (of shapes, or in one case of \<^verbatim>\<open>handle_shapes\<close> a list holding a list of edges).
\<close>

datatype 's pv = Shp 's | Lst "'s pv list"

text \<open>
  A value stored in a \<^verbatim>\<open>loc\<close> attribute or found under \<^verbatim>\<open>wrapped\<close>: a kernel location
  or a kernel shape. (\<^verbatim>\<open>get_location\<close> returns \<^verbatim>\<open>obj.wrapped\<close> of whatever object it
  is given.)
\<close>

datatype ('s, 'l) kval = KLoc 'l | KShape 's

section \<open>get\_rgba (ocp\_utils.py) and get\_color\_for\_object (convert.py)\<close>

definition get_rgba ::
  "('s, 'l) env \<Rightarrow> colour option \<Rightarrow> real option \<Rightarrow> real \<times> real \<times> real \<times> real" where
  "get_rgba E color alpha =
     (let color = (case color of None \<Rightarrow> default_color E | Some c \<Rightarrow> c) in
      case color of
        OcpColor r g b al \<Rightarrow> (r, g, b, (case alpha of None \<Rightarrow> al | Some x \<Rightarrow> x))
      | _ \<Rightarrow>
          (let col = Color E (Some color) in
           case percentage col of (r, g, b) \<Rightarrow>
             (r, g, b, (case alpha of None \<Rightarrow> a_chan col | Some x \<Rightarrow> x))))"

definition tuple_colour :: "real \<times> real \<times> real \<times> real \<Rightarrow> colour" where
  "tuple_colour t = (case t of (r, g, b, al) \<Rightarrow> ColorTuple r g b al)"

text \<open>The dictionary \<^verbatim>\<open>default_colors\<close>; \<open>None\<close> for a key that is not in it.\<close>

definition default_colors :: "string \<Rightarrow> colour option" where
  "default_colors k =
     (if k = ''TopoDS_Edge'' then Some (ColorName ''MediumOrchid'')
      else if k = ''TopoDS_Face'' then Some (ColorName ''Violet'')
      else if k = ''TopoDS_Shell'' then Some (ColorName ''Violet'')
      else if k = ''TopoDS_Solid'' then Some (ColorRGB 232 176 36)
      else if k = ''TopoDS_Vertex'' then Some (ColorName ''MediumOrchid'')
      else if k = ''TopoDS_Wire'' then Some (ColorName ''MediumOrchid'')
      else if k = ''edge'' then Some (ColorName ''MediumOrchid'')
      else if k = ''wire'' then Some (ColorName ''MediumOrchid'')
      else if k = ''face'' then Some (ColorName ''Violet'')
      else if k = ''shell'' then Some (ColorName ''Violet'')
      else if k = ''solid'' then Some (ColorRGB 232 176 36)
      else if k = ''vertex'' then Some (ColorName ''MediumOrchid'')
      else None)"

text \<open>
  The attribute \<^verbatim>\<open>color\<close> of the object passed to \<^verbatim>\<open>get_color_for_object\<close> (a list
  has none), and \<^verbatim>\<open>class_name(unwrap(obj))\<close>: a kernel shape has no attribute
  \<^verbatim>\<open>wrapped\<close>, so \<^verbatim>\<open>unwrap\<close> returns it (or the list) unchanged.
\<close>

definition own_color :: "('s, 'l) env \<Rightarrow> 's pv \<Rightarrow> colour option" where
  "own_color E obj = (case obj of Shp s \<Rightarrow> shape_color E s | Lst xs \<Rightarrow> None)"

definition class_name_unwrap :: "('s, 'l) env \<Rightarrow> 's pv \<Rightarrow> string" where
  "class_name_unwrap E obj = (case obj of Shp s \<Rightarrow> class_name E s | Lst xs \<Rightarrow> ''list'')"

definition set_alpha :: "real option \<Rightarrow> color_obj \<Rightarrow> color_obj" where
  "set_alpha alpha col_a = (case alpha of None \<Rightarrow> col_a | Some al \<Rightarrow> col_a\<lparr>a_chan := al\<rparr>)"

text \<open>
  \<^verbatim>\<open>get_color_for_object(obj, color=None, alpha=None, kind=None)\<close>. In the third
  branch \<^verbatim>\<open>color is None\<close> holds already; \<^verbatim>\<open>default_colors[kind]\<close> raises a KeyError
  for a kind that is not in the table, while the last branch uses \<^verbatim>\<open>.get\<close>.
\<close>

definition get_color_for_object ::
  "('s, 'l) env \<Rightarrow> 's pv \<Rightarrow> colour option \<Rightarrow> real option \<Rightarrow> string option \<Rightarrow>
     py_error + color_obj" where
  "get_color_for_object E obj color alpha kind =
     (case
        (if color \<noteq> None then Inr (Color E color)
         else if own_color E obj \<noteq> None then Inr (Color E (own_color E obj))
         else (case kind of
                 Some k \<Rightarrow>
                   (case default_colors k of
                      None \<Rightarrow> Inl (KeyError k)
                    | Some c \<Rightarrow> Inr (Color E (Some c)))
               | None \<Rightarrow> Inr (Color E (default_colors (class_name_unwrap E obj)))))
      of
        Inl e \<Rightarrow> Inl e
      | Inr col_a \<Rightarrow> Inr (set_alpha alpha col_a))"

text \<open>
  The colour of one object in the loop of \<^verbatim>\<open>to_ocp\<close> (the lines under
  "Get object color"): \<open>rgba_color\<close> is the entry of \<^verbatim>\<open>colors\<close> for the object,
  \<open>cad_color\<close> the object's attribute \<^verbatim>\<open>color\<close> (\<open>None\<close> when missing or
  \<^verbatim>\<open>None\<close>).
\<close>

definition is_Color :: "colour \<Rightarrow> bool" where
  "is_Color c = (case c of ColorObj x \<Rightarrow> True | _ \<Rightarrow> False)"

definition to_ocp_object_color ::
  "('s, 'l) env \<Rightarrow> colour option \<Rightarrow> colour option \<Rightarrow> colour option" where
  "to_ocp_object_color E rgba_color cad_color =
     (if rgba_color \<noteq> None \<and> \<not> is_Color (the rgba_color)
        then Some (tuple_colour (get_rgba E rgba_color None))
      else if cad_color \<noteq> None then Some (tuple_colour (get_rgba E cad_color None))
      else rgba_color)"

section \<open>The scene objects\<close>

text \<open>
  Modelled from the spec: the class \<^verbatim>\<open>OcpObject\<close> of cad\_objects.py, which is not part
  of the sources at hand. By the spec an object has a kind, a reference into the
  instance table or an inline geometry, a name, a location, a colour, a stroke width
  and a cache id; the constructor stores its keyword arguments, and an argument that is
  not given is \<^verbatim>\<open>None\<close>.
\<close>

record ('s, 'l) OcpObject =
  o_kind :: string
  o_obj :: "'s pv option"
  o_ref :: "nat option"
  o_name :: string
  o_loc :: "('s, 'l) kval option"
  o_color :: "color_obj option"
  o_width :: "nat option"
  o_cache_id :: "string option"

definition LINE_WIDTH :: nat where "LINE_WIDTH = 2"

definition POINT_SIZE :: nat where "POINT_SIZE = 4"

section \<open>The converter: instance cache and unify\<close>

text \<open>
  The attributes of an \<^verbatim>\<open>OcpConverter\<close>: the instance table, whether a progress
  object was given, and what has been printed so far.
\<close>

record 's converter =
  instances :: "('s \<times> string) list"
  progress :: bool
  printed :: "diagnostic list"

definition OcpConverter_init :: "bool \<Rightarrow> 's converter" where
  "OcpConverter_init p = \<lparr>instances = [], progress = p, printed = []\<rparr>"

text \<open>
  \<^verbatim>\<open>create_cache_id\<close>: the digest of the serialised shapes, fed in order. A list in place
  of a shape has no serialisation.
\<close>

fun serialize_all :: "('s, 'l) env \<Rightarrow> 's pv list \<Rightarrow> py_error + nat list" where
  "serialize_all E [] = Inr []"
| "serialize_all E (Shp s # rest) =
     (case serialize_all E rest of Inl e \<Rightarrow> Inl e | Inr bs \<Rightarrow> Inr (serialize E s @ bs))"
| "serialize_all E (Lst xs # rest) = Inl (TypeError ''BinTools.Write_s: incompatible argument'')"

definition create_cache_id :: "('s, 'l) env \<Rightarrow> 's pv list \<Rightarrow> py_error + string" where
  "create_cache_id E objs =
     (case serialize_all E objs of Inl e \<Rightarrow> Inl e | Inr bs \<Rightarrow> Inr (sha256 E bs))"

text \<open>
  The loop of \<^verbatim>\<open>get_instance\<close> over \<^verbatim>\<open>enumerate(self.instances)\<close>: the index of the
  first entry whose shape equals \<open>obj2\<close>.
\<close>

fun scan_instances :: "'s \<Rightarrow> ('s \<times> string) list \<Rightarrow> nat \<Rightarrow> nat option" where
  "scan_instances obj2 [] i = None"
| "scan_instances obj2 (instance # rest) i =
     (if fst instance = obj2 then Some i else scan_instances obj2 rest (Suc i))"

text \<open>The shape moved by the inverse of its own location, as \<^verbatim>\<open>get_instance\<close> stores it.\<close>

definition relocated :: "('s, 'l) env \<Rightarrow> 's \<Rightarrow> 's" where
  "relocated E s = downcast E (Moved E s (Inverted E (Location E s)))"

definition get_instance ::
  "('s, 'l) env \<Rightarrow> 's converter \<Rightarrow> 's pv \<Rightarrow> string \<Rightarrow> string \<Rightarrow> color_obj \<Rightarrow> string \<Rightarrow>
     py_error + (('s, 'l) OcpObject \<times> 's converter)" where
  "get_instance E self obj kind name color cache_id =
     (case obj of
        Lst xs \<Rightarrow> Inl (AttributeError ''list object has no attribute Location'')
      | Shp s \<Rightarrow>
          (let loc = Location E s;
               obj2 = downcast E (Moved E s (Inverted E loc)) in
           case scan_instances obj2 (instances self) 0 of
             Some i \<Rightarrow>
               Inr (\<lparr>o_kind = kind, o_obj = None, o_ref = Some i, o_name = name,
                     o_loc = Some (KLoc loc), o_color = Some color, o_width = None,
                     o_cache_id = Some cache_id\<rparr>,
                    (if progress self
                     then self\<lparr>printed := printed self @ [Progress_mark ''-'']\<rparr>
                     else self))
           | None \<Rightarrow>
               (let ref = length (instances self) in
                Inr (\<lparr>o_kind = kind, o_obj = None, o_ref = Some ref, o_name = name,
                      o_loc = Some (KLoc loc), o_color = Some color, o_width = None,
                      o_cache_id = Some cache_id\<rparr>,
                     self\<lparr>instances := instances self @ [(obj2, cache_id)]\<rparr>))))"

text \<open>
  \<^verbatim>\<open>OcpConverter.unify(objs, kind, name, color, alpha=1.0)\<close>: first the geometry
  \<^verbatim>\<open>ocp_obj\<close> (one shape, or a list), then the colour and the object. The kernel's
  \<^verbatim>\<open>make_compound\<close> takes shapes only.
\<close>

fun shapes_of :: "'s pv list \<Rightarrow> 's list option" where
  "shapes_of [] = Some []"
| "shapes_of (Shp s # rest) = map_option ((#) s) (shapes_of rest)"
| "shapes_of (Lst xs # rest) = None"

definition unify_geometry ::
  "('s, 'l) env \<Rightarrow> 's pv list \<Rightarrow> string \<Rightarrow> py_error + 's pv" where
  "unify_geometry E objs kind =
     (if length objs = 1 then
        (case hd objs of
           Lst xs \<Rightarrow> Inr (Lst xs)
         | Shp s \<Rightarrow>
             if is_topods_compound E s then
               (let ocp_objs = list_topods_compound E s in
                if length ocp_objs = 1 then Inr (Shp (downcast E (hd ocp_objs)))
                else if kind \<in> set [''edge'', ''vertex''] then Inr (Lst (map Shp ocp_objs))
                else Inr (Shp s))
             else Inr (Shp s))
      else if kind \<in> set [''solid'', ''face'', ''shell''] then
        (case shapes_of objs of
           Some ss \<Rightarrow> Inr (Shp (make_compound E ss))
         | None \<Rightarrow> Inl (TypeError ''TopoDS_Builder.Add: incompatible argument''))
      else Inr (Lst objs))"

definition unify ::
  "('s, 'l) env \<Rightarrow> 's converter \<Rightarrow> 's pv list \<Rightarrow> string \<Rightarrow> string \<Rightarrow> colour option \<Rightarrow>
     real \<Rightarrow> py_error + (('s, 'l) OcpObject \<times> 's converter)" where
  "unify E self objs kind name color alpha =
     (case unify_geometry E objs kind of
        Inl e \<Rightarrow> Inl e
      | Inr ocp_obj \<Rightarrow>
          (case (case ocp_obj of
                   Lst [] \<Rightarrow> Inl (IndexError ''list index out of range'')
                 | Lst (x # xs) \<Rightarrow> get_color_for_object E x color None (Some kind)
                 | Shp s \<Rightarrow> get_color_for_object E (Shp s) color None (Some kind))
           of
             Inl e \<Rightarrow> Inl e
           | Inr c0 \<Rightarrow>
               (let c = (if alpha < 1 then c0\<lparr>a_chan := alpha\<rparr> else c0) in
                if kind \<in> set [''solid'', ''face'', ''shell''] then
                  (case create_cache_id E objs of
                     Inl e \<Rightarrow> Inl e
                   | Inr cid \<Rightarrow> get_instance E self ocp_obj kind name c cid)
                else
                  Inr (\<lparr>o_kind = kind, o_obj = Some ocp_obj, o_ref = None, o_name = name,
                        o_loc = None, o_color = Some c,
                        o_width = Some (if kind = ''edge'' then LINE_WIDTH else POINT_SIZE),
                        o_cache_id = None\<rparr>, self))))"

text \<open>
  A small kernel for the examples: a shape is a pair of a geometry number and an integer
  placement, moving adds to the placement, a geometry number of 100 or more is a compound
  of two shapes.
\<close>

definition demo_Color :: "colour option \<Rightarrow> color_obj" where
  "demo_Color c =
     (case c of
        Some (ColorRGB r g b) \<Rightarrow> \<lparr>percentage = (real_of_int r / 255, real_of_int g / 255,
                                               real_of_int b / 255), a_chan = 1\<rparr>
      | Some (ColorTuple r g b al) \<Rightarrow> \<lparr>percentage = (r, g, b), a_chan = al\<rparr>
      | Some (ColorObj x) \<Rightarrow> x
      | Some (ColorName n) \<Rightarrow> \<lparr>percentage = (1, 0, 1), a_chan = 1\<rparr>
      | _ \<Rightarrow> \<lparr>percentage = (1 / 2, 1 / 2, 1 / 2), a_chan = 1\<rparr>)"

definition demo_env :: "(nat \<times> int, int) env" where
  "demo_env =
     \<lparr>Location = snd,
      Moved = (\<lambda>s d. (fst s, d + snd s)),
      Inverted = uminus,
      downcast = (\<lambda>s. s),
      is_topods_compound = (\<lambda>s. 100 \<le> fst s),
      list_topods_compound = (\<lambda>s. [(fst s - 100, snd s), (fst s - 99, snd s)]),
      make_compound = (\<lambda>ss. (100, 0)),
      shape_color = (\<lambda>s. None),
      class_name = (\<lambda>s. if 100 \<le> fst s then ''TopoDS_Compound'' else ''TopoDS_Solid''),
      serialize = (\<lambda>s. [fst s]),
      sha256 = (\<lambda>bs. ''digest''),
      Color = demo_Color,
      default_color = ColorRGB 232 176 36,
      make_unique = (\<lambda>ns. ns),
      identity_location = 0,
      is_topods_wire = (\<lambda>s. False),
      get_edges = (\<lambda>s. []),
      get_compound_type = (\<lambda>s. ''Solid''),
      type_name = (\<lambda>s. ''Solid'')\<rparr>"


section \<open>The scene tree\<close>

text \<open>
  Modelled from the spec: the class \<^verbatim>\<open>OcpGroup\<close> of cad\_objects.py, which is not part of
  the sources at hand. By the spec a group has a name, an optional location and an
  ordered sequence of children; \<^verbatim>\<open>add\<close> appends a child and \<^verbatim>\<open>length\<close> is the number
  of children. The name is \<open>None\<close> where the constructor is called without one.
\<close>

datatype ('s, 'l) node =
    Object "('s, 'l) OcpObject"
  | Group "string option" "('s, 'l) kval option" "('s, 'l) node list"

definition is_OcpGroup :: "('s, 'l) node \<Rightarrow> bool" where
  "is_OcpGroup n = (case n of Group nm lc objs \<Rightarrow> True | Object ob \<Rightarrow> False)"

definition objects :: "('s, 'l) node \<Rightarrow> ('s, 'l) node list" where
  "objects n = (case n of Group nm lc objs \<Rightarrow> objs | Object ob \<Rightarrow> [])"

definition node_loc :: "('s, 'l) node \<Rightarrow> ('s, 'l) kval option" where
  "node_loc n = (case n of Group nm lc objs \<Rightarrow> lc | Object ob \<Rightarrow> o_loc ob)"

definition set_node_loc :: "('s, 'l) kval option \<Rightarrow> ('s, 'l) node \<Rightarrow> ('s, 'l) node" where
  "set_node_loc v n =
     (case n of Group nm lc objs \<Rightarrow> Group nm v objs | Object ob \<Rightarrow> Object (ob\<lparr>o_loc := v\<rparr>))"

section \<open>The values given to the converter\<close>

text \<open>
  \<^verbatim>\<open>to_ocp\<close> takes arbitrary Python values and tests them by attributes and classes. A
  value is modelled by what the converter can observe of it:
  the text of \<^verbatim>\<open>type(obj)\<close>; the result of \<^verbatim>\<open>type_name(obj)\<close>; the names of the
  attributes it has; the classes it is an instance of; the predicates of the package
  that are not part of the sources at hand and hold for it (\<^verbatim>\<open>is_ocp_color\<close>,
  \<^verbatim>\<open>is_compound\<close>, \<^verbatim>\<open>is_mixed_compound\<close>, \<^verbatim>\<open>is_build123d_shapelist\<close>,
  \<^verbatim>\<open>is_cadquery_sketch\<close>, \<^verbatim>\<open>is_cadquery_shape\<close>, \<^verbatim>\<open>is_cadquery_empty_workplane\<close>,
  \<^verbatim>\<open>is_toploc_location\<close>, \<^verbatim>\<open>is_build123d_location\<close>, \<^verbatim>\<open>is_build123d_plane\<close>,
  \<^verbatim>\<open>is_gp_plane\<close>, \<^verbatim>\<open>is_build123d_axis\<close>, \<^verbatim>\<open>is_gp_axis\<close>); the values of the
  attributes \<^verbatim>\<open>name\<close>, \<^verbatim>\<open>label\<close> and \<^verbatim>\<open>color\<close> (\<open>None\<close> when the attribute is
  missing or \<^verbatim>\<open>None\<close>); the kernel value it is or wraps; the elements it yields when
  iterated (for a kernel compound: \<^verbatim>\<open>list_topods_compound\<close>); its items when it is a
  dictionary; and its \<^verbatim>\<open>children\<close>.
\<close>

datatype ('s, 'l) cad =
  Cad (c_type: string) (c_type_name: string)
      (c_has: "string list") (c_classes: "string list") (c_holds: "string list")
      (c_name: "string option") (c_label: "string option") (c_color: "colour option")
      (c_kernel: "('s, 'l) kval option")
      (c_elems: "('s, 'l) cad list")
      (c_items: "(string \<times> ('s, 'l) cad) list")
      (c_children: "('s, 'l) cad list")

definition isinstance :: "('s, 'l) cad \<Rightarrow> string list \<Rightarrow> bool" where
  "isinstance obj classes = list_ex (\<lambda>c. c \<in> set (c_classes obj)) classes"

definition holds :: "('s, 'l) cad \<Rightarrow> string \<Rightarrow> bool" where
  "holds obj p = (p \<in> set (c_holds obj))"

text \<open>The predicates of ocp\_utils.py that are in the sources.\<close>

definition has_attrs :: "('s, 'l) cad \<Rightarrow> string list \<Rightarrow> bool" where
  "has_attrs obj attrs = list_all (\<lambda>a. a \<in> set (c_has obj)) attrs"

definition is_cadquery :: "('s, 'l) cad \<Rightarrow> bool" where
  "is_cadquery obj = has_attrs obj [''objects'', ''ctx'', ''val'']"

definition is_cadquery_assembly :: "('s, 'l) cad \<Rightarrow> bool" where
  "is_cadquery_assembly obj = has_attrs obj [''obj'', ''loc'', ''name'', ''children'']"

definition is_wrapped :: "('s, 'l) cad \<Rightarrow> bool" where
  "is_wrapped obj = (''wrapped'' \<in> set (c_has obj))"

definition is_build123d :: "('s, 'l) cad \<Rightarrow> bool" where
  "is_build123d obj = has_attrs obj [''_obj'', ''_obj_name'']"

definition is_build123d_shape :: "('s, 'l) cad \<Rightarrow> bool" where
  "is_build123d_shape obj = has_attrs obj [''wrapped'', ''children'']"

definition is_build123d_compound :: "('s, 'l) cad \<Rightarrow> bool" where
  "is_build123d_compound obj = (is_build123d_shape obj \<and> isinstance obj [''Iterable''])"

definition is_build123d_assembly :: "('s, 'l) cad \<Rightarrow> bool" where
  "is_build123d_assembly obj = (is_build123d_compound obj \<and> length (c_children obj) > 0)"

definition is_topods_shape :: "('s, 'l) cad \<Rightarrow> bool" where
  "is_topods_shape obj = isinstance obj [''TopoDS_Shape'']"

definition is_topods_compound_obj :: "('s, 'l) cad \<Rightarrow> bool" where
  "is_topods_compound_obj obj = isinstance obj [''TopoDS_Compound'']"

text \<open>\<^verbatim>\<open>get_name(obj, name, default)\<close>.\<close>

definition get_name :: "('s, 'l) cad \<Rightarrow> string option \<Rightarrow> string \<Rightarrow> string" where
  "get_name obj name default_name =
     (case name of
        Some n \<Rightarrow> n
      | None \<Rightarrow>
          if ''name'' \<in> set (c_has obj) \<and> c_name obj \<noteq> None \<and> c_name obj \<noteq> Some ''''
            then the (c_name obj)
          else if ''label'' \<in> set (c_has obj) \<and> c_label obj \<noteq> None \<and> c_label obj \<noteq> Some ''''
            then the (c_label obj)
          else default_name)"

text \<open>\<^verbatim>\<open>get_type\<close> is keyed by class names, \<^verbatim>\<open>get_kind(typ)\<close> by type names.\<close>

definition get_kind :: "string \<Rightarrow> py_error + string" where
  "get_kind typ =
     (if typ = ''Edge'' then Inr ''edge''
      else if typ = ''Face'' then Inr ''face''
      else if typ = ''Shell'' then Inr ''face''
      else if typ = ''Solid'' then Inr ''solid''
      else if typ = ''Vertex'' then Inr ''vertex''
      else if typ = ''Wire'' then Inr ''edge''
      else Inl (ValueError (''Unknown type: '' @ typ)))"

section \<open>The conversion settings and the handlers taken as parameters\<close>

text \<open>The keyword arguments of \<^verbatim>\<open>to_ocp\<close> that its loop and the handlers read.\<close>

record settings =
  sketch_local :: bool
  helper_scale :: real
  unroll_compounds :: bool
  level :: nat

text \<open>
  The methods \<^verbatim>\<open>make_unique_names\<close> and \<^verbatim>\<open>cleanup\<close> of \<^verbatim>\<open>OcpGroup\<close> and the function
  \<^verbatim>\<open>mul_locations\<close> are not part of the sources at hand; they are parameters. So are
  the five handlers of \<^verbatim>\<open>to_ocp\<close> that no statement below is about
  (\<^verbatim>\<open>handle_shapelist\<close>, \<^verbatim>\<open>handle_build123d_builder\<close>, \<^verbatim>\<open>handle_cadquery_sketch\<close>,
  \<^verbatim>\<open>handle_locations_planes\<close>, \<^verbatim>\<open>handle_axis\<close>): each is an arbitrary function from
  the object, its slot name, its colour, the settings and the converter to an error or a
  node, and the converter after the call.
\<close>

type_synonym ('s, 'l) handler =
  "('s, 'l) cad \<Rightarrow> string option \<Rightarrow> colour option \<Rightarrow> settings \<Rightarrow> 's converter \<Rightarrow>
     (py_error + ('s, 'l) node) \<times> 's converter"

record ('s, 'l) ops =
  make_unique_names :: "('s, 'l) node \<Rightarrow> ('s, 'l) node"
  cleanup :: "('s, 'l) node \<Rightarrow> ('s, 'l) node"
  mul_locations :: "('s, 'l) kval option \<Rightarrow> ('s, 'l) kval option \<Rightarrow> ('s, 'l) kval option"
  handle_shapelist :: "('s, 'l) handler"
  handle_build123d_builder :: "('s, 'l) handler"
  handle_cadquery_sketch :: "('s, 'l) handler"
  handle_locations_planes :: "('s, 'l) handler"
  handle_axis :: "('s, 'l) handler"

definition debug :: "'s converter \<Rightarrow> nat \<Rightarrow> string \<Rightarrow> string option \<Rightarrow> 's converter" where
  "debug self lv msg name = self\<lparr>printed := printed self @ [Debug lv msg name]\<rparr>"

section \<open>handle\_shapes\<close>

text \<open>
  \<^verbatim>\<open>OcpConverter.handle_shapes\<close>. A raw kernel shape is downcast, a build123d or
  CadQuery shape is unwrapped; a wire is replaced by the list of its edges, and a
  compound of type \<^verbatim>\<open>Wire\<close> by one list holding its edges.
\<close>

definition handle_shapes ::
  "('s, 'l) env \<Rightarrow> ('s, 'l) cad \<Rightarrow> string option \<Rightarrow> colour option \<Rightarrow> settings \<Rightarrow>
     's converter \<Rightarrow> (py_error + ('s, 'l) node) \<times> 's converter" where
  "handle_shapes E cad_obj obj_name rgba_color cfg self =
     (case (if is_topods_shape cad_obj then
              (case c_kernel cad_obj of
                 Some (KShape s) \<Rightarrow> Inr (''TopoDS_Shape'', downcast E s)
               | _ \<Rightarrow> Inl (TypeError ''not a kernel shape''))
            else if is_build123d_shape cad_obj then
              (case c_kernel cad_obj of
                 Some (KShape s) \<Rightarrow> Inr (''build123d Shape'', s)
               | _ \<Rightarrow> Inl (TypeError ''wrapped is not a kernel shape''))
            else if holds cad_obj ''is_cadquery_shape'' then
              (case c_kernel cad_obj of
                 Some (KShape s) \<Rightarrow> Inr (''cadquery Shape'', s)
               | _ \<Rightarrow> Inl (TypeError ''wrapped is not a kernel shape''))
            else Inl (ValueError ''Unknown shape type''))
      of
        Inl e \<Rightarrow> (Inl e, self)
      | Inr (t, obj) \<Rightarrow>
          (let self1 = debug self (level cfg)
                 (''handle_shapes ('' @ t @ '') ('' @ class_name E obj @ '')'') obj_name;
               (typ, objs) =
                 (if is_topods_wire E obj then (''Wire'', map Shp (get_edges E obj))
                  else if is_topods_compound E obj then
                    (let typ = get_compound_type E obj in
                     if typ = ''Wire'' then (typ, [Lst (map Shp (get_edges E obj))])
                     else (typ, [Shp obj]))
                  else (type_name E obj, [Shp obj]));
               name = get_name cad_obj obj_name typ
           in case get_kind typ of
                Inl e \<Rightarrow> (Inl e, self1)
              | Inr kind \<Rightarrow>
                  (case unify E self1 objs kind name rgba_color 1 of
                     Inl e \<Rightarrow> (Inl e, self1)
                   | Inr (ob, self2) \<Rightarrow> (Inr (Object ob), self2))))"

section \<open>to\_ocp\<close>

text \<open>
  A Python loop whose body can raise: the body is run on the elements in order, from the
  converter the previous round left, and the first error ends the loop. The result is
  the list of the results of the rounds.
\<close>

fun seq_loop ::
  "('a \<Rightarrow> 'st \<Rightarrow> (py_error + 'b) \<times> 'st) \<Rightarrow> 'a list \<Rightarrow> 'st \<Rightarrow> (py_error + 'b list) \<times> 'st" where
  "seq_loop f [] st = (Inr [], st)"
| "seq_loop f (x # xs) st =
     (case f x st of
        (Inl e, st1) \<Rightarrow> (Inl e, st1)
      | (Inr r, st1) \<Rightarrow>
          (case seq_loop f xs st1 of
             (Inl e, st2) \<Rightarrow> (Inl e, st2)
           | (Inr rs, st2) \<Rightarrow> (Inr (r # rs), st2)))"

lemma seq_loop_cong [fundef_cong]:
  "xs = ys \<Longrightarrow> st = st' \<Longrightarrow> (\<And>x s. x \<in> set ys \<Longrightarrow> f x s = g x s) \<Longrightarrow>
   seq_loop f xs st = seq_loop g ys st'"
proof (induction ys arbitrary: xs st st')
  case Nil
  then show ?case by simp
next
  case (Cons y ys)
  have a: "f y st' = g y st'" using Cons.prems(3) by simp
  have b: "\<And>s. seq_loop f ys s = seq_loop g ys s"
    using Cons.IH[OF refl refl] Cons.prems(3) by simp
  show ?case unfolding Cons.prems(1,2) by (simp add: a b split: prod.splits sum.splits)
qed

text \<open>
  The two tests at the head of the loop of \<^verbatim>\<open>to_ocp\<close>: the values skipped silently,
  and the filter whose failure prints the skipping message.
\<close>

definition silently_skipped :: "('s, 'l) cad \<Rightarrow> bool" where
  "silently_skipped cad_obj =
     (isinstance cad_obj [''Enum''] \<or> holds cad_obj ''is_ocp_color'' \<or>
      isinstance cad_obj [''int'', ''float'', ''bool'', ''str'', ''number'', ''ndarray''])"

definition passes_filter :: "('s, 'l) cad \<Rightarrow> bool" where
  "passes_filter cad_obj =
     (is_wrapped cad_obj \<or> isinstance cad_obj [''Iterable'', ''dict''] \<or>
      is_cadquery cad_obj \<or> is_cadquery_assembly cad_obj \<or>
      holds cad_obj ''is_cadquery_sketch'' \<or> is_build123d cad_obj \<or>
      holds cad_obj ''is_compound'' \<or> is_topods_shape cad_obj \<or>
      holds cad_obj ''is_toploc_location'')"

text \<open>
  The chain of tests of the loop of \<^verbatim>\<open>to_ocp\<close>, in its order: the first test that holds
  selects the handler.
\<close>

datatype branch =
    Skip_silently | Skip_with_message
  | Handle_list_tuple | Handle_compound | Handle_dict | Handle_build123d_assembly
  | Handle_shapelist | Handle_build123d_builder | Handle_shapes | Handle_cadquery_sketch
  | Handle_locations_planes | Handle_axis | Unknown_object_type

definition dispatch :: "('s, 'l) cad \<Rightarrow> bool \<Rightarrow> branch" where
  "dispatch cad_obj unroll =
     (if silently_skipped cad_obj then Skip_silently
      else if \<not> passes_filter cad_obj then Skip_with_message
      else if isinstance cad_obj [''list'', ''tuple''] \<and>
              \<not> holds cad_obj ''is_build123d_shapelist'' then Handle_list_tuple
      else if (holds cad_obj ''is_compound'' \<and>
               (holds cad_obj ''is_mixed_compound'' \<or> unroll)) \<or>
              (is_topods_compound_obj cad_obj \<and>
               (holds cad_obj ''is_mixed_compound'' \<or> unroll)) then Handle_compound
      else if isinstance cad_obj [''dict''] then Handle_dict
      else if is_build123d_assembly cad_obj then Handle_build123d_assembly
      else if holds cad_obj ''is_build123d_shapelist'' \<or>
              (is_cadquery cad_obj \<and> \<not> holds cad_obj ''is_cadquery_empty_workplane'')
        then Handle_shapelist
      else if is_build123d cad_obj then Handle_build123d_builder
      else if is_topods_shape cad_obj \<or> is_build123d_shape cad_obj \<or>
              holds cad_obj ''is_cadquery_shape'' then Handle_shapes
      else if holds cad_obj ''is_cadquery_sketch'' then Handle_cadquery_sketch
      else if holds cad_obj ''is_build123d_location'' \<or> holds cad_obj ''is_toploc_location'' \<or>
              holds cad_obj ''is_build123d_plane'' \<or> holds cad_obj ''is_gp_plane'' \<or>
              holds cad_obj ''is_cadquery_empty_workplane'' then Handle_locations_planes
      else if holds cad_obj ''is_build123d_axis'' \<or> holds cad_obj ''is_gp_axis''
        then Handle_axis
      else Unknown_object_type)"

text \<open>
  The end of \<^verbatim>\<open>to_ocp\<close>: the group of the nodes added, \<^verbatim>\<open>make_unique_names\<close>, and
  \<^verbatim>\<open>cleanup\<close> when the group holds exactly one group.
\<close>

definition finish_group ::
  "('s, 'l) ops \<Rightarrow> ('s, 'l) kval option \<Rightarrow> ('s, 'l) node list \<Rightarrow> ('s, 'l) node" where
  "finish_group H loc nodes =
     (let group = make_unique_names H (Group None loc nodes) in
      if length (objects group) = 1 \<and> is_OcpGroup (hd (objects group))
      then cleanup H group else group)"

text \<open>
  The TypeError of the first of the two calls of \<^verbatim>\<open>handle_build123d_assembly\<close> in
  \<^verbatim>\<open>to_ocp\<close>: the method has the six parameters \<^verbatim>\<open>cad_obj, obj_name, rgba_color,
  helper_scale, sketch_local, level\<close> and the call passes the five arguments
  \<^verbatim>\<open>cad_obj, obj_name, rgba_color, sketch_local, level\<close>, so Python raises before the
  body of the method runs, and the second call (with six arguments) is not reached.
\<close>

definition assembly_call_error :: py_error where
  "assembly_call_error =
     TypeError ''handle_build123d_assembly() missing 1 required positional argument: level''"

text \<open>The handlers that do not call \<^verbatim>\<open>to_ocp\<close> again, by branch.\<close>

definition leaf_handler ::
  "('s, 'l) env \<Rightarrow> ('s, 'l) ops \<Rightarrow> branch \<Rightarrow> ('s, 'l) handler" where
  "leaf_handler E H b cad_obj obj_name rgba_color cfg self =
     (case b of
        Handle_build123d_assembly \<Rightarrow> (Inl assembly_call_error, self)
      | Handle_shapelist \<Rightarrow> handle_shapelist H cad_obj obj_name rgba_color cfg self
      | Handle_build123d_builder \<Rightarrow>
          handle_build123d_builder H cad_obj obj_name rgba_color cfg self
      | Handle_shapes \<Rightarrow> handle_shapes E cad_obj obj_name rgba_color cfg self
      | Handle_cadquery_sketch \<Rightarrow> handle_cadquery_sketch H cad_obj obj_name rgba_color cfg self
      | Handle_locations_planes \<Rightarrow>
          handle_locations_planes H cad_obj obj_name rgba_color cfg self
      | Handle_axis \<Rightarrow> handle_axis H cad_obj obj_name rgba_color cfg self
      | _ \<Rightarrow> (Inl (ValueError ''Unknown object type''), self))"

text \<open>The settings of a call \<^verbatim>\<open>self.to_ocp(..., top_level=False, level=level + 1)\<close>.\<close>

definition nested :: "settings \<Rightarrow> settings" where
  "nested cfg = cfg\<lparr>unroll_compounds := False, level := Suc (level cfg)\<rparr>"

text \<open>
  What a handler does with the result of such a call on one object: the end of
  \<^verbatim>\<open>to_ocp\<close> on the nodes of its loop, then \<^verbatim>\<open>result.cleanup()\<close>.
\<close>

definition nested_result ::
  "('s, 'l) env \<Rightarrow> ('s, 'l) ops \<Rightarrow> ('s, 'l) node option \<Rightarrow> ('s, 'l) node" where
  "nested_result E H r =
     cleanup H (finish_group H (Some (KLoc (identity_location E)))
       (case r of None \<Rightarrow> [] | Some ocp_obj \<Rightarrow> [ocp_obj]))"

text \<open>
  The body of the loop of \<^verbatim>\<open>to_ocp\<close> for one object, with the handlers that call
  \<^verbatim>\<open>to_ocp\<close> again. It returns an error or its result, and the converter as it is at
  the return or at the raise; the result is \<open>None\<close> for a value that is skipped. A call
  \<^verbatim>\<open>self.to_ocp(obj, names=[name], colors=[rgba_color], ...)\<close> of a handler is the loop
  of \<^verbatim>\<open>to_ocp\<close> on the one object: the names are made unique and the colour goes
  through \<^verbatim>\<open>get_rgba\<close>, as the head of \<^verbatim>\<open>to_ocp\<close> does, and \<^verbatim>\<open>zip\<close> gives no round
  when \<^verbatim>\<open>make_unique\<close> returns no name. \<^verbatim>\<open>unroll_compounds\<close> is not passed on.
  In \<^verbatim>\<open>handle_compound\<close> the name is taken after \<^verbatim>\<open>cad_obj\<close> has become a plain list,
  which has no name of its own.
\<close>

fun to_ocp_object ::
  "('s, 'l) env \<Rightarrow> ('s, 'l) ops \<Rightarrow> settings \<Rightarrow> ('s, 'l) cad \<Rightarrow> string option \<Rightarrow>
     colour option \<Rightarrow> 's converter \<Rightarrow> (py_error + ('s, 'l) node option) \<times> 's converter" where
  "to_ocp_object E H cfg (Cad ty tn has cls hs nm lb col kv elems items children)
       obj_name rgba_color0 self =
     (let cad_obj = Cad ty tn has cls hs nm lb col kv elems items children;
          b = dispatch cad_obj (unroll_compounds cfg);
          rgba_color = to_ocp_object_color E rgba_color0 col;
          sub_color = Some (tuple_colour (get_rgba E rgba_color None))
      in
      if b = Skip_silently then (Inr None, self)
      else if b = Skip_with_message then
        (Inr None, self\<lparr>printed := printed self @ [Skipping_object obj_name ty]\<rparr>)
      else
        (case
           (if b = Handle_list_tuple then
              (case seq_loop
                      (\<lambda>obj s.
                         case make_unique E [Some (get_name cad_obj obj_name (c_type_name obj))] of
                           [] \<Rightarrow> (Inr (nested_result E H None), s)
                         | n # ns \<Rightarrow>
                             (case to_ocp_object E H (nested cfg) obj n sub_color s of
                                (Inl e, s1) \<Rightarrow> (Inl e, s1)
                              | (Inr r, s1) \<Rightarrow> (Inr (nested_result E H r), s1)))
                      elems (debug self (level cfg) ''handle_list_tuple'' obj_name) of
                 (Inl e, self1) \<Rightarrow> (Inl e, self1)
               | (Inr nodes, self1) \<Rightarrow>
                   (Inr (cleanup H (make_unique_names H
                      (Group (Some (get_name cad_obj obj_name ''List'')) None nodes))), self1))
            else if b = Handle_compound then
              (case seq_loop
                      (\<lambda>obj s.
                         case to_ocp_object E H (nested cfg) obj None sub_color s of
                           (Inl e, s1) \<Rightarrow> (Inl e, s1)
                         | (Inr r, s1) \<Rightarrow> (Inr (nested_result E H r), s1))
                      elems (debug self (level cfg) ''handle_compound'' obj_name) of
                 (Inl e, self1) \<Rightarrow> (Inl e, self1)
               | (Inr nodes, self1) \<Rightarrow>
                   (Inr (make_unique_names H
                      (Group (Some (case obj_name of Some n \<Rightarrow> n | None \<Rightarrow> ''Compound''))
                         None nodes)), self1))
            else if b = Handle_dict then
              (case seq_loop
                      (\<lambda>item s.
                         case make_unique E [Some (fst item)] of
                           [] \<Rightarrow> (Inr (nested_result E H None), s)
                         | n # ns \<Rightarrow>
                             (case to_ocp_object E H (nested cfg) (snd item) n sub_color s of
                                (Inl e, s1) \<Rightarrow> (Inl e, s1)
                              | (Inr r, s1) \<Rightarrow> (Inr (nested_result E H r), s1)))
                      items (debug self (level cfg) ''handle_dict'' obj_name) of
                 (Inl e, self1) \<Rightarrow> (Inl e, self1)
               | (Inr nodes, self1) \<Rightarrow>
                   (Inr (Group (Some (get_name cad_obj obj_name ''Dict'')) None nodes), self1))
            else leaf_handler E H b cad_obj obj_name rgba_color cfg self)
         of
           (Inl e, self1) \<Rightarrow> (Inl e, self1)
         | (Inr ocp_obj, self1) \<Rightarrow> (Inr (Some ocp_obj), debug self1 (level cfg) ''=>'' None)))"

text \<open>The loop of \<^verbatim>\<open>to_ocp\<close> over \<^verbatim>\<open>zip(cad_objs, names, colors)\<close>.\<close>

fun to_ocp_loop ::
  "('s, 'l) env \<Rightarrow> ('s, 'l) ops \<Rightarrow> settings \<Rightarrow> ('s, 'l) cad list \<Rightarrow> string option list \<Rightarrow>
     colour option list \<Rightarrow> 's converter \<Rightarrow> (py_error + ('s, 'l) node list) \<times> 's converter" where
  "to_ocp_loop E H cfg (cad_obj # rest) (obj_name # names) (rgba_color # colors) self =
     (case to_ocp_object E H cfg cad_obj obj_name rgba_color self of
        (Inl e, self1) \<Rightarrow> (Inl e, self1)
      | (Inr r, self1) \<Rightarrow>
          (case to_ocp_loop E H cfg rest names colors self1 of
             (Inl e, self2) \<Rightarrow> (Inl e, self2)
           | (Inr nodes, self2) \<Rightarrow>
               (Inr ((case r of None \<Rightarrow> [] | Some ocp_obj \<Rightarrow> [ocp_obj]) @ nodes), self2)))"
| "to_ocp_loop E H cfg cad_objs names colors self = (Inr [], self)"

text \<open>
  \<^verbatim>\<open>OcpConverter.to_ocp\<close>: the validation of the parameters, the loop and the end. The
  arguments \<^verbatim>\<open>names\<close>, \<^verbatim>\<open>colors\<close>, \<^verbatim>\<open>alphas\<close> and \<^verbatim>\<open>loc\<close> are \<open>None\<close> when they
  are not given. \<^verbatim>\<open>default_color\<close> is computed by the code and not used afterwards.
\<close>

definition names_error :: py_error where
  "names_error = ValueError ''Length of names does not match the number of objects''"

definition alphas_error :: py_error where
  "alphas_error = ValueError ''Length of alphas does not match the number of objects''"

definition colors_error :: py_error where
  "colors_error = ValueError ''Length of colors does not match the number of objects''"

definition to_ocp ::
  "('s, 'l) env \<Rightarrow> ('s, 'l) ops \<Rightarrow> ('s, 'l) cad list \<Rightarrow> string option list option \<Rightarrow>
     colour option list option \<Rightarrow> real option list option \<Rightarrow> ('s, 'l) kval option \<Rightarrow>
     settings \<Rightarrow> 's converter \<Rightarrow> (py_error + ('s, 'l) node) \<times> 's converter" where
  "to_ocp E H cad_objs names colors alphas loc cfg self =
     (let loc1 = (case loc of None \<Rightarrow> KLoc (identity_location E) | Some l \<Rightarrow> l);
          n = length cad_objs
      in
      case (case names of
              None \<Rightarrow> Inr (replicate n None)
            | Some ns \<Rightarrow> if length ns \<noteq> n then Inl names_error else Inr (make_unique E ns))
      of
        Inl e \<Rightarrow> (Inl e, self)
      | Inr names1 \<Rightarrow>
          (let alphas1 = (case alphas of None \<Rightarrow> replicate n None | Some al \<Rightarrow> al) in
           if length alphas1 \<noteq> n then (Inl alphas_error, self)
           else
             case (case colors of
                     None \<Rightarrow> Inr (replicate n None)
                   | Some cs \<Rightarrow>
                       if length cs \<noteq> n then Inl colors_error
                       else Inr (map (\<lambda>ca. Some (tuple_colour (get_rgba E (fst ca) (snd ca))))
                                   (zip cs alphas1)))
             of
               Inl e \<Rightarrow> (Inl e, self)
             | Inr colors1 \<Rightarrow>
                 (case to_ocp_loop E H cfg cad_objs names1 colors1 self of
                    (Inl e, self1) \<Rightarrow> (Inl e, self1)
                  | (Inr nodes, self1) \<Rightarrow> (Inr (finish_group H (Some loc1) nodes), self1))))"

text \<open>
  \<^verbatim>\<open>OcpConverter.handle_build123d_assembly\<close>, as the method is written. \<^verbatim>\<open>to_ocp\<close>
  never runs it (see \<open>assembly_call_error\<close>). \<^verbatim>\<open>get_location(cad_obj, as_none=False)\<close>
  is given the assembly itself, which has the attribute \<^verbatim>\<open>wrapped\<close>, and returns
  that attribute. The children are converted without colours and without
  \<^verbatim>\<open>sketch_local\<close>.
\<close>

definition assembly_child_node :: "('s, 'l) ops \<Rightarrow> ('s, 'l) node \<Rightarrow> ('s, 'l) node" where
  "assembly_child_node H sub_obj =
     (if is_OcpGroup sub_obj \<and> length (objects sub_obj) = 1 then
        set_node_loc (mul_locations H (node_loc (hd (objects sub_obj))) (node_loc sub_obj))
          (hd (objects sub_obj))
      else sub_obj)"

definition handle_build123d_assembly ::
  "('s, 'l) env \<Rightarrow> ('s, 'l) ops \<Rightarrow> ('s, 'l) cad \<Rightarrow> string option \<Rightarrow> colour option \<Rightarrow> real \<Rightarrow>
     settings \<Rightarrow> 's converter \<Rightarrow> (py_error + ('s, 'l) node) \<times> 's converter" where
  "handle_build123d_assembly E H cad_obj obj_name rgba_color hscale cfg self =
     (let self0 = debug self (level cfg) ''handle_build123d_assembly'' obj_name;
          name = get_name cad_obj obj_name ''Assembly''
      in
      if \<not> is_wrapped cad_obj \<and> \<not> isinstance cad_obj [''TopLoc_Location''] then
        (Inl (TypeError ''Unknown location typ''), self0)
      else
        case seq_loop
               (\<lambda>child s.
                  case to_ocp E H [child] (Some [c_label child]) None None None
                         \<lparr>sketch_local = False, helper_scale = hscale,
                          unroll_compounds = False, level = Suc (level cfg)\<rparr> s of
                    (Inl e, s1) \<Rightarrow> (Inl e, s1)
                  | (Inr sub_obj, s1) \<Rightarrow> (Inr (assembly_child_node H sub_obj), s1))
               (c_children cad_obj) self0 of
          (Inl e, self1) \<Rightarrow> (Inl e, self1)
        | (Inr nodes, self1) \<Rightarrow> (Inr (Group (Some name) (c_kernel cad_obj) nodes), self1))"

text \<open>Values and parameters for the examples.\<close>

definition demo_ops :: "(nat \<times> int, int) ops" where
  "demo_ops =
     \<lparr>make_unique_names = (\<lambda>n. n),
      cleanup = (\<lambda>n. n),
      mul_locations = (\<lambda>a b. a),
      handle_shapelist = (\<lambda>c n col cfg s. (Inl (ValueError ''no handler''), s)),
      handle_build123d_builder = (\<lambda>c n col cfg s. (Inl (ValueError ''no handler''), s)),
      handle_cadquery_sketch = (\<lambda>c n col cfg s. (Inl (ValueError ''no handler''), s)),
      handle_locations_planes = (\<lambda>c n col cfg s. (Inl (ValueError ''no handler''), s)),
      handle_axis = (\<lambda>c n col cfg s. (Inl (ValueError ''no handler''), s))\<rparr>"

definition demo_settings :: settings where
  "demo_settings =
     \<lparr>sketch_local = False, helper_scale = 1, unroll_compounds = False, level = 0\<rparr>"

definition demo_unrecognized :: "(nat \<times> int, int) cad" where
  "demo_unrecognized =
     Cad ''object'' ''object'' [] [] [] None None None None [] [] []"

definition demo_solid :: "nat \<Rightarrow> int \<Rightarrow> (nat \<times> int, int) cad" where
  "demo_solid g l =
     Cad ''TopoDS_Solid'' ''TopoDS_Solid'' [] [''TopoDS_Shape''] [] None None None
       (Some (KShape (g, l))) [] [] []"

definition demo_part :: "(nat \<times> int, int) cad" where
  "demo_part =
     Cad ''Solid'' ''Solid'' [''wrapped'', ''children'', ''label''] [] [] None (Some ''part'')
       None (Some (KShape (7, 3))) [] [] []"

definition demo_assembly :: "(nat \<times> int, int) cad" where
  "demo_assembly =
     Cad ''Compound'' ''Compound'' [''wrapped'', ''children'', ''label''] [''Iterable'']
       [''is_compound''] None (Some ''assembly'') None (Some (KShape (100, 5))) [demo_part] []
       [demo_part]"



section \<open>Bounding volume: the union law\<close>

lemma py_min_eq: "py_min a b = min a b"
  by (simp add: py_min_def min_def)

lemma py_max_eq: "py_max a b = max a b"
  by (simp add: py_max_def max_def)

lemma extents_calc: "extents (BoundingBox_calc s) = extents s"
  by (simp add: extents_def BoundingBox_calc_def Let_def)

lemma update_dict: "BoundingBox_update b (ArgDict d) False = Inr (hull_step b d)"
  by (simp add: BoundingBox_update_def hull_step_def)

lemma fold_boxes_append: "fold_boxes bb (xs @ ys) = fold_boxes (fold_boxes bb xs) ys"
  by (induction bb xs rule: fold_boxes.induct) simp_all

lemma c_bb_loop_dicts:
  "leaf_boxes ps = map (\<lambda>d. Some (DictV d)) ds \<Longrightarrow>
   \<exists>ps'. c_bb_loop ps bb = Inr (ps', fold_boxes bb ds)"
proof (induction ps bb arbitrary: ds rule: c_bb_loop.induct)
  case (1 bb)
  then show ?case by simp
next
  case (2 l rest bb)
  from "2.prems" obtain d ds' where ds: "ds = d # ds'" and lb: "l_bb l = Some (DictV d)"
    and rest: "leaf_boxes rest = map (\<lambda>d. Some (DictV d)) ds'"
    by (cases ds) auto
  have leaf: "c_bb_leaf bb (DictV d) = Inr (fold_boxes bb [d])"
    by (cases bb) (simp_all add: c_bb_leaf_def update_dict)
  from "2.IH"[OF lb leaf rest] obtain ps' where
    "c_bb_loop rest (fold_boxes bb [d]) = Inr (ps', fold_boxes (fold_boxes bb [d]) ds')" by blast
  moreover have "fold_boxes (fold_boxes bb [d]) ds' = fold_boxes bb ds"
    unfolding ds by (cases bb) simp_all
  ultimately show ?case using lb leaf by simp
next
  case (3 ps rest bb)
  from "3.prems" obtain ds1 ds2 where ds: "ds = ds1 @ ds2"
    and p1: "leaf_boxes ps = map (\<lambda>d. Some (DictV d)) ds1"
    and p2: "leaf_boxes rest = map (\<lambda>d. Some (DictV d)) ds2"
    by (auto simp: append_eq_map_conv)
  from "3.IH"(1)[OF p1] obtain ps' where a: "c_bb_loop ps bb = Inr (ps', fold_boxes bb ds1)" by blast
  from "3.IH"(2)[OF a _ p2] obtain r' where
    b: "c_bb_loop rest (fold_boxes bb ds1) = Inr (r', fold_boxes (fold_boxes bb ds1) ds2)"
    by auto
  show ?case using a b by (simp add: ds fold_boxes_append)
qed

lemma extents_hull_step:
  "extents (hull_step b d) =
     (min (d_xmin d) (xmin b), max (d_xmax d) (xmax b), min (d_ymin d) (ymin b),
      max (d_ymax d) (ymax b), min (d_zmin d) (zmin b), max (d_zmax d) (zmax b))"
  unfolding hull_step_def extents_calc by (simp add: extents_def py_min_eq py_max_eq)

lemma fold_boxes_Some:
  "\<exists>B. fold_boxes (Some b) ds = Some B \<and>
     xmin B = Min (insert (xmin b) (d_xmin ` set ds)) \<and>
     xmax B = Max (insert (xmax b) (d_xmax ` set ds)) \<and>
     ymin B = Min (insert (ymin b) (d_ymin ` set ds)) \<and>
     ymax B = Max (insert (ymax b) (d_ymax ` set ds)) \<and>
     zmin B = Min (insert (zmin b) (d_zmin ` set ds)) \<and>
     zmax B = Max (insert (zmax b) (d_zmax ` set ds))"
proof (induction ds arbitrary: b)
  case Nil
  then show ?case by simp
next
  case (Cons d ds)
  have e: "xmin (hull_step b d) = min (d_xmin d) (xmin b)" "xmax (hull_step b d) = max (d_xmax d) (xmax b)"
     "ymin (hull_step b d) = min (d_ymin d) (ymin b)" "ymax (hull_step b d) = max (d_ymax d) (ymax b)"
     "zmin (hull_step b d) = min (d_zmin d) (zmin b)" "zmax (hull_step b d) = max (d_zmax d) (zmax b)"
    using extents_hull_step[of b d] by (simp_all add: extents_def)
  from Cons.IH[of "hull_step b d"] obtain B where B: "fold_boxes (Some (hull_step b d)) ds = Some B"
    and x: "xmin B = Min (insert (xmin (hull_step b d)) (d_xmin ` set ds))"
           "xmax B = Max (insert (xmax (hull_step b d)) (d_xmax ` set ds))"
           "ymin B = Min (insert (ymin (hull_step b d)) (d_ymin ` set ds))"
           "ymax B = Max (insert (ymax (hull_step b d)) (d_ymax ` set ds))"
           "zmin B = Min (insert (zmin (hull_step b d)) (d_zmin ` set ds))"
           "zmax B = Max (insert (zmax (hull_step b d)) (d_zmax ` set ds))"
    by blast
  have m: "\<And>(a::real) c S. finite S \<Longrightarrow> Min (insert (min a c) S) = Min (insert c (insert a S))"
    by (metis Min_insert2 Min_insert Min_singleton finite.insertI insert_not_empty min.assoc min.commute)
  have M: "\<And>(a::real) c S. finite S \<Longrightarrow> Max (insert (max a c) S) = Max (insert c (insert a S))"
    by (metis Max_insert Max_singleton finite.insertI insert_not_empty max.assoc max.commute)
  show ?case using B x by (simp add: e m M)
qed

lemma extents_new_box_dict:
  "extents (new_box (DictV d)) = (d_xmin d, d_xmax d, d_ymin d, d_ymax d, d_zmin d, d_zmax d)"
  unfolding new_box_def bb_val.case extents_calc by (simp add: extents_def raw_box_def)

text \<open>
  Claim C3. \<^verbatim>\<open>BoundingBox.update\<close> with \<^verbatim>\<open>minimize=False\<close> sets every axis to the
  minimum of the two lower bounds and the maximum of the two upper bounds (the wider
  interval); with \<^verbatim>\<open>minimize=True\<close> it takes the maximum of the lower bounds and the
  minimum of the upper bounds (the narrower interval). Folding the boxes of the leaves of
  a group with \<^verbatim>\<open>combined_bb\<close>, every leaf carrying a box dictionary, returns a box
  whose extents are the minimum and maximum over all the leaves' boxes; and updating a
  box with itself (with either setting of \<^verbatim>\<open>minimize\<close>) leaves the six extents
  unchanged.
\<close>

theorem BoundingBox_update_union_law:
  "(\<exists>b'. BoundingBox_update self (ArgBoundingBox other) False = Inr b' \<and>
      extents b' = (min (xmin other) (xmin self), max (xmax other) (xmax self),
                    min (ymin other) (ymin self), max (ymax other) (ymax self),
                    min (zmin other) (zmin self), max (zmax other) (zmax self))) \<and>
   (\<exists>b'. BoundingBox_update self (ArgBoundingBox other) True = Inr b' \<and>
      extents b' = (max (xmin other) (xmin self), min (xmax other) (xmax self),
                    max (ymin other) (ymin self), min (ymax other) (ymax self),
                    max (zmin other) (zmin self), min (zmax other) (zmax self))) \<and>
   (leaf_boxes ps = map (\<lambda>d. Some (DictV d)) (d # ds) \<longrightarrow>
      (\<exists>ps' B. combined_bb (Parts ps) = Inr (Parts ps', Some B) \<and>
         extents B = (Min (d_xmin ` set (d # ds)), Max (d_xmax ` set (d # ds)),
                      Min (d_ymin ` set (d # ds)), Max (d_ymax ` set (d # ds)),
                      Min (d_zmin ` set (d # ds)), Max (d_zmax ` set (d # ds))))) \<and>
   (\<exists>b'. BoundingBox_update self (ArgBoundingBox self) minimize = Inr b' \<and>
      extents b' = extents self)"
proof (intro conjI impI)
  show "\<exists>b'. BoundingBox_update self (ArgBoundingBox other) False = Inr b' \<and>
      extents b' = (min (xmin other) (xmin self), max (xmax other) (xmax self),
                    min (ymin other) (ymin self), max (ymax other) (ymax self),
                    min (zmin other) (zmin self), max (zmax other) (zmax self))"
    by (simp add: BoundingBox_update_def extents_calc) (simp add: extents_def py_min_eq py_max_eq)
  show "\<exists>b'. BoundingBox_update self (ArgBoundingBox other) True = Inr b' \<and>
      extents b' = (max (xmin other) (xmin self), min (xmax other) (xmax self),
                    max (ymin other) (ymin self), min (ymax other) (ymax self),
                    max (zmin other) (zmin self), min (zmax other) (zmax self))"
    by (simp add: BoundingBox_update_def extents_calc) (simp add: extents_def py_min_eq py_max_eq)
  show "\<exists>b'. BoundingBox_update self (ArgBoundingBox self) minimize = Inr b' \<and>
      extents b' = extents self"
    by (simp add: BoundingBox_update_def extents_calc) (simp add: extents_def py_min_eq py_max_eq)
next
  assume lb: "leaf_boxes ps = map (\<lambda>d. Some (DictV d)) (d # ds)"
  from c_bb_loop_dicts[OF lb, of None] obtain ps' where
    run: "c_bb_loop ps None = Inr (ps', fold_boxes (Some (new_box (DictV d))) ds)" by auto
  from fold_boxes_Some[of "new_box (DictV d)" ds] obtain B where
    B: "fold_boxes (Some (new_box (DictV d))) ds = Some B"
    and x: "xmin B = Min (insert (xmin (new_box (DictV d))) (d_xmin ` set ds))"
           "xmax B = Max (insert (xmax (new_box (DictV d))) (d_xmax ` set ds))"
           "ymin B = Min (insert (ymin (new_box (DictV d))) (d_ymin ` set ds))"
           "ymax B = Max (insert (ymax (new_box (DictV d))) (d_ymax ` set ds))"
           "zmin B = Min (insert (zmin (new_box (DictV d))) (d_zmin ` set ds))"
           "zmax B = Max (insert (zmax (new_box (DictV d))) (d_zmax ` set ds))"
    by blast
  have n: "xmin (new_box (DictV d)) = d_xmin d" "xmax (new_box (DictV d)) = d_xmax d"
          "ymin (new_box (DictV d)) = d_ymin d" "ymax (new_box (DictV d)) = d_ymax d"
          "zmin (new_box (DictV d)) = d_zmin d" "zmax (new_box (DictV d)) = d_zmax d"
    using extents_new_box_dict[of d] by (simp_all add: extents_def)
  have "combined_bb (Parts ps) = Inr (Parts ps', Some B)"
    using run B by (simp add: combined_bb_def)
  moreover have "extents B = (Min (d_xmin ` set (d # ds)), Max (d_xmax ` set (d # ds)),
                      Min (d_ymin ` set (d # ds)), Max (d_ymax ` set (d # ds)),
                      Min (d_zmin ` set (d # ds)), Max (d_zmax ` set (d # ds)))"
    using x by (simp add: extents_def n)
  ultimately show "\<exists>ps' B. combined_bb (Parts ps) = Inr (Parts ps', Some B) \<and>
         extents B = (Min (d_xmin ` set (d # ds)), Max (d_xmax ` set (d # ds)),
                      Min (d_ymin ` set (d # ds)), Max (d_ymax ` set (d # ds)),
                      Min (d_zmin ` set (d # ds)), Max (d_zmax ` set (d # ds)))"
    by blast
qed

text \<open>
  A group of one leaf and one nested group with one leaf: the boxes
  [0,1] x [0,1] x [0,1] and [10,11] x [-2,1] x [0,3] fold to [0,11] x [-2,1] x [0,3].
\<close>

theorem BoundingBox_update_union_law_witness:
  "leaf_boxes [leaf_with_box (box_dict 0 1 0 1 0 1),
               Parts [leaf_with_box (box_dict 10 11 (-2) 1 0 3)]] =
     map (\<lambda>d. Some (DictV d)) [box_dict 0 1 0 1 0 1, box_dict 10 11 (-2) 1 0 3] \<and>
   (\<exists>ps' B. combined_bb (Parts [leaf_with_box (box_dict 0 1 0 1 0 1),
                                    Parts [leaf_with_box (box_dict 10 11 (-2) 1 0 3)]]) =
              Inr (Parts ps', Some B) \<and>
            extents B = (0, 11, -2, 1, 0, 3))"
  using BoundingBox_update_union_law[of _ _
      "[leaf_with_box (box_dict 0 1 0 1 0 1), Parts [leaf_with_box (box_dict 10 11 (-2) 1 0 3)]]"
      "box_dict 0 1 0 1 0 1" "[box_dict 10 11 (-2) 1 0 3]"]
  by (simp add: leaf_with_box_def box_dict_def)

section \<open>Void bounding boxes\<close>

text \<open>
  Claim C4. When the kernel's box of a shape is void, constructing a
  \<^verbatim>\<open>BoundingBox\<close> from the shape returns a box (the construction has no failing branch):
  its extents are the centre of mass minus and plus \<open>10\<^sup>-\<^sup>6\<close> on every axis, its centre is
  the centre of mass, and exactly one line, the message
  \<^verbatim>\<open>Void Bounding Box\<close> with these six values, is printed.
\<close>

theorem BoundingBox_void_micro_box:
  assumes "(if opt then AddOptimal_s K s else Add_s K s) = Void"
    and "CentreOfMass K s = (c0, c1, c2)"
  shows "\<exists>b. BoundingBox_init K (FromShape s) opt =
           (b, [Void_Bounding_Box (c0 - 1 / 1000000, c0 + 1 / 1000000, c1 - 1 / 1000000,
                                   c1 + 1 / 1000000, c2 - 1 / 1000000, c2 + 1 / 1000000)]) \<and>
         extents b = (c0 - 1 / 1000000, c0 + 1 / 1000000, c1 - 1 / 1000000,
                      c1 + 1 / 1000000, c2 - 1 / 1000000, c2 + 1 / 1000000) \<and>
         center b = (c0, c1, c2)"
proof -
  have bb: "BoundingBox_bounding_box K opt s tol_default =
      ((c0 - 1 / 1000000, c0 + 1 / 1000000, c1 - 1 / 1000000,
        c1 + 1 / 1000000, c2 - 1 / 1000000, c2 + 1 / 1000000),
       [Void_Bounding_Box (c0 - 1 / 1000000, c0 + 1 / 1000000, c1 - 1 / 1000000,
                           c1 + 1 / 1000000, c2 - 1 / 1000000, c2 + 1 / 1000000)])"
    using assms
    by (simp add: BoundingBox_bounding_box_def BoundingBox_center_of_mass_def tol_default_def
        Let_def)
  show ?thesis
    by (simp add: BoundingBox_init_def bb)
       (simp add: extents_def BoundingBox_calc_def raw_box_def Let_def)
qed

theorem BoundingBox_void_micro_box_witness:
  "(if False then AddOptimal_s demo_bb_kernel 0 else Add_s demo_bb_kernel 0) = Void \<and>
   CentreOfMass demo_bb_kernel 0 = (1, 2, 3) \<and>
   (\<exists>b. BoundingBox_init demo_bb_kernel (FromShape 0) False =
           (b, [Void_Bounding_Box (1 - 1 / 1000000, 1 + 1 / 1000000, 2 - 1 / 1000000,
                                   2 + 1 / 1000000, 3 - 1 / 1000000, 3 + 1 / 1000000)]) \<and>
         extents b = (1 - 1 / 1000000, 1 + 1 / 1000000, 2 - 1 / 1000000,
                      2 + 1 / 1000000, 3 - 1 / 1000000, 3 + 1 / 1000000) \<and>
         center b = (1, 2, 3))"
  using BoundingBox_void_micro_box[of False demo_bb_kernel 0 1 2 3]
  by (simp add: demo_bb_kernel_def)

section \<open>The bounding box of a mesh and the fold of tessellate\_group\<close>

lemma np_min_Min:
  assumes "xs \<noteq> []"
  shows "np_min xs = Min (set xs)"
proof (cases xs)
  case Nil
  with assms show ?thesis by simp
next
  case (Cons a list)
  show ?thesis using Min.set_eq_fold[of a list]
    by (simp add: Cons foldl_conv_fold min.commute)
qed

lemma np_max_Max:
  assumes "xs \<noteq> []"
  shows "np_max xs = Max (set xs)"
proof (cases xs)
  case Nil
  with assms show ?thesis by simp
next
  case (Cons a list)
  show ?thesis using Max.set_eq_fold[of a list]
    by (simp add: Cons foldl_conv_fold max.commute)
qed

lemma minmax_dict_eq:
  "v \<noteq> [] \<Longrightarrow> minmax_dict v =
     \<lparr>d_xmin = Min (vx ` set v), d_xmax = Max (vx ` set v),
      d_ymin = Min (vy ` set v), d_ymax = Max (vy ` set v),
      d_zmin = Min (vz ` set v), d_zmax = Max (vz ` set v)\<rparr>"
  by (simp add: minmax_dict_def np_min_Min np_max_Max)

lemma reshape3_Nil: "reshape3 p = Some [] \<Longrightarrow> p = []"
  by (induction p rule: reshape3.induct) auto

lemma reshape3_mod: "length p mod 3 = 0 \<Longrightarrow> \<exists>v. reshape3 p = Some v"
  by (induction p rule: reshape3.induct) auto

lemma np_bbox_None_iff: "np_bbox R p t q = Inr None \<longleftrightarrow> p = []"
  by (auto simp: np_bbox_def split: option.splits prod.splits)

lemma np_bbox_ok:
  assumes "p \<noteq> []" "length p mod 3 = 0" "(t = None) = (q = None)"
  shows "\<exists>d. np_bbox R p t q = Inr (Some d)"
proof -
  from reshape3_mod[OF assms(2)] obtain v where "reshape3 p = Some v" by blast
  then show ?thesis using assms(1,3)
    by (cases t; cases q) (auto simp: np_bbox_def split: prod.splits)
qed

lemma np_bbox_not_wrong: "np_bbox R p t q \<noteq> Inl wrong_bounding_box_param"
  by (auto simp: np_bbox_def wrong_bounding_box_param_def split: option.splits prod.splits)

lemma update_dict_ok: "\<exists>b'. BoundingBox_update ob (ArgDict d) False = Inr b'"
  by (simp add: BoundingBox_update_def)

lemma add_bb_loop_nonempty:
  "list_all (\<lambda>m. vertices m \<noteq> []) ms \<Longrightarrow>
   add_bb_loop R ms ps ob \<noteq> Inl wrong_bounding_box_param"
proof (induction R ms ps ob rule: add_bb_loop.induct)
  case (1 R ms ob)
  then show ?case by simp
next
  case (2 R ms l rest ob)
  show ?case
  proof (cases "l_type l = ''shapes''")
    case False
    with 2 show ?thesis by (auto split: sum.splits)
  next
    case True
    show ?thesis
    proof (cases "l_shape l")
      case Inline
      with True show ?thesis by (simp add: wrong_bounding_box_param_def)
    next
      case (Ref ind)
      show ?thesis
      proof (cases "ind < length ms")
        case False
        with True Ref show ?thesis by (simp add: wrong_bounding_box_param_def)
      next
        case lt: True
        then have ne: "vertices (ms ! ind) \<noteq> []" using "2.prems" by (simp add: list_all_length)
        show ?thesis
        proof (cases "l_loc l")
          case None
          with True Ref lt show ?thesis by (simp add: wrong_bounding_box_param_def)
        next
          case (Some tq)
          obtain t q where tq: "tq = (t, q)" by (cases tq)
          show ?thesis
          proof (cases "np_bbox R (vertices (ms ! ind)) t q")
            case (Inl e)
            with np_bbox_not_wrong[of R "vertices (ms ! ind)" t q] True Ref lt Some tq
            show ?thesis by simp
          next
            case (Inr r)
            with ne np_bbox_None_iff[of R "vertices (ms ! ind)" t q] obtain d where r: "r = Some d"
              by (cases r) auto
            from update_dict_ok obtain ob' where
              u: "BoundingBox_update ob (ArgDict d) False = Inr ob'" by blast
            have "add_bb_loop R ms rest ob' \<noteq> Inl wrong_bounding_box_param"
              using "2.IH"(1) True Ref lt Some tq Inr u r "2.prems"
              by (auto simp: arg_of_np_bbox_def)
            then show ?thesis using True Ref lt Some tq Inr r u
              by (auto simp: arg_of_np_bbox_def split: sum.splits)
          qed
        qed
      qed
    qed
  qed
next
  case (3 R ms ps rest ob)
  then show ?case by (auto split: sum.splits)
qed

lemma update_None: "BoundingBox_update ob ArgNone minimize = Inl wrong_bounding_box_param"
  by (simp add: BoundingBox_update_def)

lemma add_bb_loop_wf:
  "list_all (leaf_ok ms) (shapes_leaves ps) \<Longrightarrow>
   (if list_ex (leaf_empty_mesh ms) (shapes_leaves ps)
    then add_bb_loop R ms ps ob = Inl wrong_bounding_box_param
    else (\<exists>r. add_bb_loop R ms ps ob = Inr r))"
proof (induction R ms ps ob rule: add_bb_loop.induct)
  case (1 R ms ob)
  then show ?case by simp
next
  case (2 R ms l rest ob)
  from "2.prems" have ok: "leaf_ok ms l" and okr: "list_all (leaf_ok ms) (shapes_leaves rest)"
    by simp_all
  show ?case
  proof (cases "l_type l = ''shapes''")
    case False
    then have ne: "\<not> leaf_empty_mesh ms l" by (simp add: leaf_empty_mesh_def)
    from "2.IH"(2)[OF False okr] False ne show ?thesis
      by (auto split: sum.splits if_splits)
  next
    case True
    from ok True obtain ind t q where sh: "l_shape l = Ref ind" and lt: "ind < length ms"
      and m3: "length (vertices (ms ! ind)) mod 3 = 0" and loc: "l_loc l = Some (t, q)"
      and tq: "(t = None) = (q = None)"
      by (auto simp: leaf_ok_def split: leaf_shape.splits option.splits)
    show ?thesis
    proof (cases "vertices (ms ! ind) = []")
      case empty: True
      then have e: "leaf_empty_mesh ms l" using True sh lt by (simp add: leaf_empty_mesh_def)
      have "np_bbox R (vertices (ms ! ind)) t q = Inr None"
        using empty by (simp add: np_bbox_None_iff)
      then show ?thesis using True sh lt loc e
        by (simp add: arg_of_np_bbox_def update_None)
    next
      case False
      then have ne: "\<not> leaf_empty_mesh ms l" using sh by (simp add: leaf_empty_mesh_def)
      from np_bbox_ok[OF False m3 tq] obtain d where
        nb: "np_bbox R (vertices (ms ! ind)) t q = Inr (Some d)" by blast
      from update_dict_ok obtain ob' where
        u: "BoundingBox_update ob (ArgDict d) False = Inr ob'" by blast
      have a: "BoundingBox_update ob (arg_of_np_bbox (Some d)) False = Inr ob'"
        using u by (simp add: arg_of_np_bbox_def)
      have lt': "\<not> \<not> ind < length ms" using lt by simp
      from "2.IH"(1)[OF True sh lt' loc refl nb a okr] True sh lt loc nb a ne show ?thesis
        by (auto split: sum.splits if_splits)
    qed
  qed
next
  case (3 R ms ps rest ob)
  from "3.prems" have ok1: "list_all (leaf_ok ms) (shapes_leaves ps)"
    and ok2: "list_all (leaf_ok ms) (shapes_leaves rest)" by simp_all
  show ?case
  proof (cases "list_ex (leaf_empty_mesh ms) (shapes_leaves ps)")
    case True
    with "3.IH"(1)[OF ok1] show ?thesis by simp
  next
    case False
    with "3.IH"(1)[OF ok1] obtain ps' ob' where a: "add_bb_loop R ms ps ob = Inr (ps', ob')"
      by auto
    from "3.IH"(2)[OF a refl ok2] a False show ?thesis
      by (auto split: sum.splits if_splits)
  qed
qed

text \<open>
  Claim C10. \<^verbatim>\<open>np_bbox\<close> returns \<^verbatim>\<open>None\<close> exactly when the vertex buffer is empty.
  On a non-empty buffer of rows of three it returns the componentwise minimum and maximum
  of the vertices (without a placement), or of the vertices rotated by the quaternion and
  translated (with a placement). When every meshed instance has a non-empty vertex buffer,
  the fold \<^verbatim>\<open>_add_bb\<close> of \<^verbatim>\<open>tessellate_group\<close> never ends in the error that the last
  branch of \<^verbatim>\<open>BoundingBox.update\<close> raises. When a leaf of type \<^verbatim>\<open>shapes\<close> refers to a
  meshed instance with an empty vertex buffer (all leaves being otherwise well formed),
  the fold passes \<^verbatim>\<open>None\<close> to \<^verbatim>\<open>update\<close>, which raises, and the fold ends in that
  error.
\<close>

theorem np_bbox_and_bounding_fold:
  "(np_bbox R p t q = Inr None \<longleftrightarrow> p = []) \<and>
   (p \<noteq> [] \<longrightarrow> reshape3 p = Some v \<longrightarrow>
      np_bbox R p None None = Inr (Some
        \<lparr>d_xmin = Min (vx ` set v), d_xmax = Max (vx ` set v),
         d_ymin = Min (vy ` set v), d_ymax = Max (vy ` set v),
         d_zmin = Min (vz ` set v), d_zmax = Max (vz ` set v)\<rparr>) \<and>
      np_bbox R p (Some tr) (Some (qx, qy, qz, qw)) = Inr (Some
        \<lparr>d_xmin = Min (vx ` (\<lambda>x. vadd (R (qw, qx, qy, qz) x) tr) ` set v),
         d_xmax = Max (vx ` (\<lambda>x. vadd (R (qw, qx, qy, qz) x) tr) ` set v),
         d_ymin = Min (vy ` (\<lambda>x. vadd (R (qw, qx, qy, qz) x) tr) ` set v),
         d_ymax = Max (vy ` (\<lambda>x. vadd (R (qw, qx, qy, qz) x) tr) ` set v),
         d_zmin = Min (vz ` (\<lambda>x. vadd (R (qw, qx, qy, qz) x) tr) ` set v),
         d_zmax = Max (vz ` (\<lambda>x. vadd (R (qw, qx, qy, qz) x) tr) ` set v)\<rparr>)) \<and>
   (list_all (\<lambda>m. vertices m \<noteq> []) ms \<longrightarrow>
      add_bb R ms sh ob \<noteq> Inl wrong_bounding_box_param) \<and>
   BoundingBox_update ob ArgNone minimize = Inl wrong_bounding_box_param \<and>
   (list_all (leaf_ok ms') (shapes_leaves ps) \<longrightarrow>
    list_ex (leaf_empty_mesh ms') (shapes_leaves ps) \<longrightarrow>
      add_bb R ms' (Parts ps) ob = Inl wrong_bounding_box_param)"
proof (intro conjI impI)
  show "np_bbox R p t q = Inr None \<longleftrightarrow> p = []" by (rule np_bbox_None_iff)
  show "BoundingBox_update ob ArgNone minimize = Inl wrong_bounding_box_param"
    by (rule update_None)
next
  assume "list_all (\<lambda>m. vertices m \<noteq> []) ms"
  from add_bb_loop_nonempty[OF this] show "add_bb R ms sh ob \<noteq> Inl wrong_bounding_box_param"
    by (cases sh) (auto simp: add_bb_def wrong_bounding_box_param_def split: sum.splits)
next
  assume "list_all (leaf_ok ms') (shapes_leaves ps)"
    and "list_ex (leaf_empty_mesh ms') (shapes_leaves ps)"
  with add_bb_loop_wf[of ms' ps R ob]
  show "add_bb R ms' (Parts ps) ob = Inl wrong_bounding_box_param"
    by (simp add: add_bb_def)
next
  assume p: "p \<noteq> []" and v: "reshape3 p = Some v"
  then have ne: "v \<noteq> []" using reshape3_Nil by blast
  show "np_bbox R p None None = Inr (Some
        \<lparr>d_xmin = Min (vx ` set v), d_xmax = Max (vx ` set v),
         d_ymin = Min (vy ` set v), d_ymax = Max (vy ` set v),
         d_zmin = Min (vz ` set v), d_zmax = Max (vz ` set v)\<rparr>)"
    using p v by (simp add: np_bbox_def minmax_dict_eq[OF ne])
  have ne': "map (\<lambda>x. vadd (R (qw, qx, qy, qz) x) tr) v \<noteq> []" using ne by simp
  show "np_bbox R p (Some tr) (Some (qx, qy, qz, qw)) = Inr (Some
        \<lparr>d_xmin = Min (vx ` (\<lambda>x. vadd (R (qw, qx, qy, qz) x) tr) ` set v),
         d_xmax = Max (vx ` (\<lambda>x. vadd (R (qw, qx, qy, qz) x) tr) ` set v),
         d_ymin = Min (vy ` (\<lambda>x. vadd (R (qw, qx, qy, qz) x) tr) ` set v),
         d_ymax = Max (vy ` (\<lambda>x. vadd (R (qw, qx, qy, qz) x) tr) ` set v),
         d_zmin = Min (vz ` (\<lambda>x. vadd (R (qw, qx, qy, qz) x) tr) ` set v),
         d_zmax = Max (vz ` (\<lambda>x. vadd (R (qw, qx, qy, qz) x) tr) ` set v)\<rparr>)"
    using p v by (simp add: np_bbox_def minmax_dict_eq[OF ne'])
qed

text \<open>
  One mesh of two vertices (0,0,0) and (1,2,3), placed at the translation (10,0,0) with
  the identity as rotation: its box is [10,11] x [0,2] x [0,3]. A tree with one leaf that
  refers to this mesh does not reach the error; the same tree over a mesh with an empty
  vertex buffer does.
\<close>

theorem np_bbox_and_bounding_fold_witness:
  "[0, 0, 0, 1, 2, 3] \<noteq> ([] :: real list) \<and>
   reshape3 [0, 0, 0, 1, 2, 3] = Some [(0, 0, 0), (1, 2, 3)] \<and>
   np_bbox (\<lambda>q x. x) [0, 0, 0, 1, 2, 3] (Some (10, 0, 0)) (Some (0, 0, 0, 1)) =
     Inr (Some \<lparr>d_xmin = 10, d_xmax = 11, d_ymin = 0, d_ymax = 2, d_zmin = 0, d_zmax = 3\<rparr>) \<and>
   list_all (\<lambda>m. vertices m \<noteq> []) [demo_mesh [0, 0, 0, 1, 2, 3]] \<and>
   add_bb (\<lambda>q x. x) [demo_mesh [0, 0, 0, 1, 2, 3]] (Parts [demo_leaf 0]) zero_box
     \<noteq> Inl wrong_bounding_box_param \<and>
   list_all (leaf_ok [demo_mesh []]) (shapes_leaves [demo_leaf 0]) \<and>
   list_ex (leaf_empty_mesh [demo_mesh []]) (shapes_leaves [demo_leaf 0]) \<and>
   add_bb (\<lambda>q x. x) [demo_mesh []] (Parts [demo_leaf 0]) zero_box
     = Inl wrong_bounding_box_param"
  using np_bbox_and_bounding_fold[of "\<lambda>q x. x" "[0, 0, 0, 1, 2, 3]" _ _
      "[(0, 0, 0), (1, 2, 3)]" "(10, 0, 0)" 0 0 0 1 "[demo_mesh [0, 0, 0, 1, 2, 3]]"
      "Parts [demo_leaf 0]" zero_box _ "[demo_mesh []]" "[demo_leaf 0]"]
  by (simp add: demo_mesh_def demo_leaf_def leaf_ok_def leaf_empty_mesh_def vx_def vy_def
      vz_def vadd_def)

section \<open>The instance cache\<close>

lemma scan_instances_append:
  "scan_instances x (xs @ ys) i =
     (case scan_instances x xs i of
        Some k \<Rightarrow> Some k
      | None \<Rightarrow> scan_instances x ys (i + length xs))"
  by (induction xs arbitrary: i) (simp_all split: option.splits)

lemma scan_instances_None: "scan_instances x xs i = None \<longleftrightarrow> x \<notin> fst ` set xs"
  by (induction xs arbitrary: i) auto

lemma scan_instances_Some:
  "scan_instances x xs i = Some k \<Longrightarrow>
     i \<le> k \<and> k - i < length xs \<and> fst (xs ! (k - i)) = x \<and> (\<forall>j < k - i. fst (xs ! j) \<noteq> x)"
proof (induction xs arbitrary: i)
  case Nil
  then show ?case by simp
next
  case (Cons e xs)
  show ?case
  proof (cases "fst e = x")
    case True
    with Cons.prems show ?thesis by simp
  next
    case False
    with Cons.prems have "scan_instances x xs (Suc i) = Some k" by simp
    from Cons.IH[OF this] have k: "Suc i \<le> k" "k - Suc i < length xs"
      "fst (xs ! (k - Suc i)) = x" "\<forall>j < k - Suc i. fst (xs ! j) \<noteq> x" by simp_all
    from k(1) have e: "k - i = Suc (k - Suc i)" by simp
    have "\<forall>j < k - i. fst ((e # xs) ! j) \<noteq> x"
    proof (intro allI impI)
      fix j assume "j < k - i"
      then show "fst ((e # xs) ! j) \<noteq> x" using False k(4) e by (cases j) simp_all
    qed
    then show ?thesis using k e by simp
  qed
qed

lemma scan_instances_first:
  "k < length xs \<Longrightarrow> fst (xs ! k) = x \<Longrightarrow> \<forall>j < k. fst (xs ! j) \<noteq> x \<Longrightarrow>
   scan_instances x xs i = Some (i + k)"
proof (induction xs arbitrary: i k)
  case Nil
  then show ?case by simp
next
  case (Cons e xs)
  show ?case
  proof (cases k)
    case 0
    with Cons.prems show ?thesis by simp
  next
    case (Suc k')
    from Cons.prems(3) Suc have ne: "fst e \<noteq> x" by auto
    have "\<forall>j < k'. fst (xs ! j) \<noteq> x" using Cons.prems(3) Suc by auto
    from Cons.IH[of k' "Suc i"] this Cons.prems(1,2) Suc
    have "scan_instances x xs (Suc i) = Some (Suc i + k')" by simp
    with ne Suc show ?thesis by simp
  qed
qed

lemma get_instance_hit:
  assumes "scan_instances (relocated E s) (instances st) 0 = Some i"
  shows "\<exists>ob st'. get_instance E st (Shp s) k n c h = Inr (ob, st') \<and>
           o_ref ob = Some i \<and> o_obj ob = None \<and> o_kind ob = k \<and>
           o_loc ob = Some (KLoc (Location E s)) \<and> instances st' = instances st"
  using assms by (simp add: get_instance_def relocated_def Let_def)

lemma get_instance_miss:
  assumes "scan_instances (relocated E s) (instances st) 0 = None"
  shows "\<exists>ob st'. get_instance E st (Shp s) k n c h = Inr (ob, st') \<and>
           o_ref ob = Some (length (instances st)) \<and> o_obj ob = None \<and> o_kind ob = k \<and>
           o_loc ob = Some (KLoc (Location E s)) \<and>
           instances st' = instances st @ [(relocated E s, h)]"
  using assms by (simp add: get_instance_def relocated_def Let_def)

text \<open>After a call the reference is the first index of the relocated shape in the table.\<close>

lemma get_instance_post:
  "\<exists>ob st' r. get_instance E st (Shp s) k n c h = Inr (ob, st') \<and>
     o_ref ob = Some r \<and> o_obj ob = None \<and> o_kind ob = k \<and> o_loc ob = Some (KLoc (Location E s)) \<and>
     scan_instances (relocated E s) (instances st') 0 = Some r \<and>
     (relocated E s \<in> fst ` set (instances st) \<longrightarrow> instances st' = instances st) \<and>
     (relocated E s \<notin> fst ` set (instances st) \<longrightarrow>
        r = length (instances st) \<and> instances st' = instances st @ [(relocated E s, h)])"
proof (cases "scan_instances (relocated E s) (instances st) 0")
  case None
  then have notin: "relocated E s \<notin> fst ` set (instances st)"
    by (simp add: scan_instances_None)
  from get_instance_miss[OF None, of k n c h] obtain ob st' where
    g: "get_instance E st (Shp s) k n c h = Inr (ob, st')"
       "o_ref ob = Some (length (instances st))" "o_obj ob = None" "o_kind ob = k"
       "o_loc ob = Some (KLoc (Location E s))" "instances st' = instances st @ [(relocated E s, h)]"
    by blast
  have "scan_instances (relocated E s) (instances st') 0 = Some (length (instances st))"
    using None g(6) by (simp add: scan_instances_append)
  with g notin show ?thesis by simp
next
  case (Some i)
  from scan_instances_Some[OF Some] have "relocated E s \<in> fst ` set (instances st)"
    by (metis diff_zero image_eqI nth_mem)
  moreover from get_instance_hit[OF Some, of k n c h] obtain ob st' where
    "get_instance E st (Shp s) k n c h = Inr (ob, st')"
       "o_ref ob = Some i" "o_obj ob = None" "o_kind ob = k"
       "o_loc ob = Some (KLoc (Location E s))" "instances st' = instances st"
    by blast
  ultimately show ?thesis using Some by simp
qed

lemma get_instance_distinct:
  assumes "get_instance E st (Shp s) k n c h = Inr (ob, st')"
    and "distinct (map fst (instances st))"
  shows "distinct (map fst (instances st'))"
proof (cases "scan_instances (relocated E s) (instances st) 0")
  case None
  then have "relocated E s \<notin> fst ` set (instances st)" by (simp add: scan_instances_None)
  moreover from get_instance_miss[OF None, of k n c h] assms(1)
  have "instances st' = instances st @ [(relocated E s, h)]" by auto
  ultimately show ?thesis using assms(2) by simp
next
  case (Some i)
  from get_instance_hit[OF Some, of k n c h] assms(1)
  have "instances st' = instances st" by auto
  then show ?thesis using assms(2) by simp
qed

text \<open>
  Claim C1. Two calls of \<^verbatim>\<open>get_instance\<close> in a row, for the shapes \<open>s1\<close> and \<open>s2\<close>,
  both return an object with a reference and the shape's own location. When the two
  shapes have the same placement-normalised geometry (the shape moved by the inverse of
  its location), the second call returns the reference of the first and leaves the
  instance table as it is; when the normalised geometries differ, the references
  differ. A call whose normalised shape is in the table returns the first index holding
  it and does not change the table; otherwise it appends the normalised shape with the
  cache id and returns the new index, the former length. A table without duplicates
  stays without duplicates.
\<close>

theorem get_instance_deduplicates:
  "\<exists>o1 st1 o2 st2 r1 r2.
     get_instance E st (Shp s1) k1 n1 c1 h1 = Inr (o1, st1) \<and>
     get_instance E st1 (Shp s2) k2 n2 c2 h2 = Inr (o2, st2) \<and>
     o_ref o1 = Some r1 \<and> o_ref o2 = Some r2 \<and>
     o_loc o1 = Some (KLoc (Location E s1)) \<and> o_loc o2 = Some (KLoc (Location E s2)) \<and>
     (relocated E s1 = relocated E s2 \<longrightarrow> r2 = r1 \<and> instances st2 = instances st1) \<and>
     (relocated E s1 \<noteq> relocated E s2 \<longrightarrow> r2 \<noteq> r1) \<and>
     (relocated E s1 \<in> fst ` set (instances st) \<longrightarrow>
        r1 < length (instances st) \<and> fst (instances st ! r1) = relocated E s1 \<and>
        (\<forall>j < r1. fst (instances st ! j) \<noteq> relocated E s1) \<and>
        instances st1 = instances st) \<and>
     (relocated E s1 \<notin> fst ` set (instances st) \<longrightarrow>
        r1 = length (instances st) \<and>
        instances st1 = instances st @ [(relocated E s1, h1)]) \<and>
     (distinct (map fst (instances st)) \<longrightarrow> distinct (map fst (instances st2)))"
proof -
  from get_instance_post[of E st s1 k1 n1 c1 h1] obtain o1 st1 r1 where
    g1: "get_instance E st (Shp s1) k1 n1 c1 h1 = Inr (o1, st1)"
    and r1: "o_ref o1 = Some r1" and l1: "o_loc o1 = Some (KLoc (Location E s1))"
    and sc1: "scan_instances (relocated E s1) (instances st1) 0 = Some r1"
    and in1: "relocated E s1 \<in> fst ` set (instances st) \<longrightarrow> instances st1 = instances st"
    and out1: "relocated E s1 \<notin> fst ` set (instances st) \<longrightarrow>
        r1 = length (instances st) \<and> instances st1 = instances st @ [(relocated E s1, h1)]"
    by blast
  from get_instance_post[of E st1 s2 k2 n2 c2 h2] obtain o2 st2 r2 where
    g2: "get_instance E st1 (Shp s2) k2 n2 c2 h2 = Inr (o2, st2)"
    and r2: "o_ref o2 = Some r2" and l2: "o_loc o2 = Some (KLoc (Location E s2))"
    and sc2: "scan_instances (relocated E s2) (instances st2) 0 = Some r2"
    and in2: "relocated E s2 \<in> fst ` set (instances st1) \<longrightarrow> instances st2 = instances st1"
    and out2: "relocated E s2 \<notin> fst ` set (instances st1) \<longrightarrow>
        r2 = length (instances st1) \<and> instances st2 = instances st1 @ [(relocated E s2, h2)]"
    by blast
  from scan_instances_Some[OF sc1] have f1: "r1 < length (instances st1)"
    "fst (instances st1 ! r1) = relocated E s1"
    "\<forall>j < r1. fst (instances st1 ! j) \<noteq> relocated E s1" by simp_all
  from scan_instances_Some[OF sc2] have f2: "r2 < length (instances st2)"
    "fst (instances st2 ! r2) = relocated E s2" by simp_all
  have mem1: "relocated E s1 \<in> fst ` set (instances st1)"
    using f1(1,2) by (metis image_eqI nth_mem)
  have same: "relocated E s1 = relocated E s2 \<longrightarrow> r2 = r1 \<and> instances st2 = instances st1"
  proof
    assume eq: "relocated E s1 = relocated E s2"
    with mem1 in2 have i: "instances st2 = instances st1" by simp
    with sc1 sc2 eq show "r2 = r1 \<and> instances st2 = instances st1" by simp
  qed
  have pre: "instances st2 ! r1 = instances st1 ! r1"
  proof (cases "relocated E s2 \<in> fst ` set (instances st1)")
    case True
    with in2 show ?thesis by simp
  next
    case False
    with out2 f1(1) show ?thesis by (simp add: nth_append)
  qed
  have diff: "relocated E s1 \<noteq> relocated E s2 \<longrightarrow> r2 \<noteq> r1"
    using f1(2) f2(2) pre by auto
  have hit: "relocated E s1 \<in> fst ` set (instances st) \<longrightarrow>
        r1 < length (instances st) \<and> fst (instances st ! r1) = relocated E s1 \<and>
        (\<forall>j < r1. fst (instances st ! j) \<noteq> relocated E s1) \<and>
        instances st1 = instances st"
    using in1 f1 by auto
  have dist: "distinct (map fst (instances st)) \<longrightarrow> distinct (map fst (instances st2))"
    using get_instance_distinct[OF g1] get_instance_distinct[OF g2] by blast
  show ?thesis
    using g1 g2 r1 r2 l1 l2 same diff hit out1 dist by blast
qed

text \<open>
  The geometry 7 at the placements 0 and 10 is interned once, under the reference 0; the
  geometry 8 then receives the reference 1.
\<close>

theorem get_instance_deduplicates_witness:
  "relocated demo_env (7, 0) = relocated demo_env (7, 10) \<and>
   Location demo_env (7, 0) \<noteq> Location demo_env (7, 10) \<and>
   relocated demo_env (7, 0) \<noteq> relocated demo_env (8, 0) \<and>
   relocated demo_env (7, 0) \<notin> fst ` set (instances (OcpConverter_init False)) \<and>
   distinct (map fst (instances (OcpConverter_init False :: (nat \<times> int) converter))) \<and>
   (\<exists>o1 st1 o2 st2.
      get_instance demo_env (OcpConverter_init False) (Shp (7, 0)) ''solid'' ''a''
        (demo_Color None) ''h1'' = Inr (o1, st1) \<and>
      get_instance demo_env st1 (Shp (7, 10)) ''solid'' ''b'' (demo_Color None) ''h2''
        = Inr (o2, st2) \<and>
      o_ref o1 = Some 0 \<and> o_ref o2 = Some 0 \<and> o_loc o1 = Some (KLoc 0) \<and> o_loc o2 = Some (KLoc 10) \<and>
      instances st2 = [((7, 0), ''h1'')]) \<and>
   (\<exists>o1 st1 o2 st2 r2.
      get_instance demo_env (OcpConverter_init False) (Shp (7, 0)) ''solid'' ''a''
        (demo_Color None) ''h1'' = Inr (o1, st1) \<and>
      get_instance demo_env st1 (Shp (8, 0)) ''solid'' ''b'' (demo_Color None) ''h2''
        = Inr (o2, st2) \<and>
      o_ref o1 = Some 0 \<and> o_ref o2 = Some r2 \<and> r2 \<noteq> 0)"
proof -
  have a: "relocated demo_env (7, 0) = (7, 0)" "relocated demo_env (7, 10) = (7, 0)"
    "relocated demo_env (8, 0) = (8, 0)"
    by (simp_all add: relocated_def demo_env_def)
  have i: "instances (OcpConverter_init False :: (nat \<times> int) converter) = []"
    by (simp add: OcpConverter_init_def)
  have l: "Location demo_env (7, 0) = 0" "Location demo_env (7, 10) = 10"
    by (simp_all add: demo_env_def)
  from get_instance_deduplicates[of demo_env "OcpConverter_init False" "(7, 0)" "''solid''"
      "''a''" "demo_Color None" "''h1''" "(7, 10)" "''solid''" "''b''" "demo_Color None" "''h2''"]
  obtain o1 st1 o2 st2 r1 r2 where
    g: "get_instance demo_env (OcpConverter_init False) (Shp (7, 0)) ''solid'' ''a''
          (demo_Color None) ''h1'' = Inr (o1, st1)"
       "get_instance demo_env st1 (Shp (7, 10)) ''solid'' ''b'' (demo_Color None) ''h2''
          = Inr (o2, st2)"
    and r: "o_ref o1 = Some r1" "o_ref o2 = Some r2"
       "o_loc o1 = Some (KLoc (Location demo_env (7, 0)))"
       "o_loc o2 = Some (KLoc (Location demo_env (7, 10)))"
    and same: "relocated demo_env (7, 0) = relocated demo_env (7, 10) \<longrightarrow>
         r2 = r1 \<and> instances st2 = instances st1"
    and miss: "relocated demo_env (7, 0) \<notin> fst ` set (instances (OcpConverter_init False)) \<longrightarrow>
         r1 = length (instances (OcpConverter_init False :: (nat \<times> int) converter)) \<and>
         instances st1 = instances (OcpConverter_init False) @ [(relocated demo_env (7, 0), ''h1'')]"
    by blast
  have v: "r1 = 0" "r2 = 0" "instances st2 = [((7, 0), ''h1'')]"
    using same miss by (simp_all add: a i)
  have one: "\<exists>o1 st1 o2 st2.
      get_instance demo_env (OcpConverter_init False) (Shp (7, 0)) ''solid'' ''a''
        (demo_Color None) ''h1'' = Inr (o1, st1) \<and>
      get_instance demo_env st1 (Shp (7, 10)) ''solid'' ''b'' (demo_Color None) ''h2''
        = Inr (o2, st2) \<and>
      o_ref o1 = Some 0 \<and> o_ref o2 = Some 0 \<and> o_loc o1 = Some (KLoc 0) \<and> o_loc o2 = Some (KLoc 10) \<and>
      instances st2 = [((7, 0), ''h1'')]"
    using g r v l by auto
  from get_instance_deduplicates[of demo_env "OcpConverter_init False" "(7, 0)" "''solid''"
      "''a''" "demo_Color None" "''h1''" "(8, 0)" "''solid''" "''b''" "demo_Color None" "''h2''"]
  obtain p1 pt1 p2 pt2 q1 q2 where
    h: "get_instance demo_env (OcpConverter_init False) (Shp (7, 0)) ''solid'' ''a''
          (demo_Color None) ''h1'' = Inr (p1, pt1)"
       "get_instance demo_env pt1 (Shp (8, 0)) ''solid'' ''b'' (demo_Color None) ''h2''
          = Inr (p2, pt2)"
    and q: "o_ref p1 = Some q1" "o_ref p2 = Some q2"
    and diff: "relocated demo_env (7, 0) \<noteq> relocated demo_env (8, 0) \<longrightarrow> q2 \<noteq> q1"
    and miss2: "relocated demo_env (7, 0) \<notin> fst ` set (instances (OcpConverter_init False)) \<longrightarrow>
         q1 = length (instances (OcpConverter_init False :: (nat \<times> int) converter)) \<and>
         instances pt1 = instances (OcpConverter_init False) @ [(relocated demo_env (7, 0), ''h1'')]"
    by blast
  have w: "q1 = 0" "q2 \<noteq> 0" using diff miss2 by (simp_all add: a i)
  have two: "\<exists>o1 st1 o2 st2 r2.
      get_instance demo_env (OcpConverter_init False) (Shp (7, 0)) ''solid'' ''a''
        (demo_Color None) ''h1'' = Inr (o1, st1) \<and>
      get_instance demo_env st1 (Shp (8, 0)) ''solid'' ''b'' (demo_Color None) ''h2''
        = Inr (o2, st2) \<and>
      o_ref o1 = Some 0 \<and> o_ref o2 = Some r2 \<and> r2 \<noteq> 0"
    using h q w by auto
  show ?thesis using one two by (simp add: a i l)
qed

section \<open>Objects produced by unify\<close>

lemma unify_ref_kinds:
  assumes u: "unify E st objs kind name color alpha = Inr (ob, st')"
    and k: "kind \<in> {''solid'', ''face'', ''shell''}"
  shows "\<exists>r. o_ref ob = Some r \<and> r < length (instances st') \<and> o_obj ob = None \<and>
           o_kind ob = kind \<and> (\<exists>new. instances st' = instances st @ new)"
proof -
  from u k obtain g c cid where gi: "get_instance E st g kind name c cid = Inr (ob, st')"
    by (auto simp: unify_def Let_def split: sum.splits if_splits)
  then obtain s where g: "g = Shp s" by (cases g) (simp_all add: get_instance_def)
  from get_instance_post[of E st s kind name c cid] gi[unfolded g] obtain r where
    r: "o_ref ob = Some r" "o_obj ob = None" "o_kind ob = kind"
       "scan_instances (relocated E s) (instances st') 0 = Some r"
    and i: "relocated E s \<in> fst ` set (instances st) \<longrightarrow> instances st' = instances st"
       "relocated E s \<notin> fst ` set (instances st) \<longrightarrow>
          r = length (instances st) \<and> instances st' = instances st @ [(relocated E s, cid)]"
    by auto
  from scan_instances_Some[OF r(4)] have "r < length (instances st')" by simp
  moreover have "\<exists>new. instances st' = instances st @ new" using i by (metis append_Nil2)
  ultimately show ?thesis using r by simp
qed

lemma unify_inline_kinds:
  assumes u: "unify E st objs kind name color alpha = Inr (ob, st')"
    and k: "kind \<notin> {''solid'', ''face'', ''shell''}"
  shows "o_ref ob = None \<and> (\<exists>g. o_obj ob = Some g) \<and> o_kind ob = kind \<and> st' = st \<and>
         o_width ob = Some (if kind = ''edge'' then LINE_WIDTH else POINT_SIZE)"
  using u k by (auto simp: unify_def Let_def split: sum.splits if_splits)

text \<open>
  Claim C5. An object returned by \<^verbatim>\<open>unify\<close> has exactly one of a reference and an inline
  geometry. For the kinds solid, face and shell it has a reference and no inline
  geometry; the reference is an index of the instance table as it is after the call, and
  the table after the call is the table before it with entries appended. For the kinds
  edge and vertex it has the inline geometry and no reference, the converter (and so
  the instance table) is unchanged, and the width is \<^verbatim>\<open>LINE_WIDTH\<close> = 2 for an edge and
  \<^verbatim>\<open>POINT_SIZE\<close> = 4 for a vertex.
\<close>

theorem unify_ref_xor_inline:
  assumes "unify E st objs kind name color alpha = Inr (ob, st')"
  shows "o_kind ob = kind \<and>
         (o_ref ob = None) \<noteq> (o_obj ob = None) \<and>
         (kind \<in> {''solid'', ''face'', ''shell''} \<longrightarrow>
            (\<exists>r. o_ref ob = Some r \<and> r < length (instances st')) \<and> o_obj ob = None \<and>
            (\<exists>new. instances st' = instances st @ new)) \<and>
         (kind \<in> {''edge'', ''vertex''} \<longrightarrow>
            o_ref ob = None \<and> (\<exists>g. o_obj ob = Some g) \<and> st' = st \<and>
            o_width ob = Some (if kind = ''edge'' then LINE_WIDTH else POINT_SIZE)) \<and>
         LINE_WIDTH = 2 \<and> POINT_SIZE = 4"
proof (cases "kind \<in> {''solid'', ''face'', ''shell''}")
  case True
  from unify_ref_kinds[OF assms True] True show ?thesis
    by (auto simp: LINE_WIDTH_def POINT_SIZE_def)
next
  case False
  from unify_inline_kinds[OF assms False] False show ?thesis
    by (auto simp: LINE_WIDTH_def POINT_SIZE_def)
qed

text \<open>
  A solid is interned under the reference 0; two edges and one vertex stay inline with
  the widths 2 and 4.
\<close>

theorem unify_ref_xor_inline_witness:
  "(\<exists>ob st'. unify demo_env (OcpConverter_init False) [Shp (7, 5)] ''solid'' ''part'' None 1
       = Inr (ob, st') \<and>
      o_ref ob = Some 0 \<and> o_obj ob = None \<and> instances st' = [((7, 0), ''digest'')]) \<and>
   (\<exists>ob st'. unify demo_env (OcpConverter_init False) [Shp (1, 0), Shp (2, 0)] ''edge''
       ''edges'' None 1 = Inr (ob, st') \<and>
      o_ref ob = None \<and> o_obj ob = Some (Lst [Shp (1, 0), Shp (2, 0)]) \<and>
      o_width ob = Some 2 \<and> instances st' = []) \<and>
   (\<exists>ob st'. unify demo_env (OcpConverter_init False) [Shp (3, 0)] ''vertex''
       ''point'' None 1 = Inr (ob, st') \<and>
      o_ref ob = None \<and> o_obj ob = Some (Shp (3, 0)) \<and> o_width ob = Some 4 \<and>
      instances st' = [])"
proof -
  obtain ob1 st1 where u1: "unify demo_env (OcpConverter_init False) [Shp (7, 5)] ''solid''
      ''part'' None 1 = Inr (ob1, st1)" and i1: "instances st1 = [((7, 0), ''digest'')]"
    by (simp add: unify_def unify_geometry_def get_color_for_object_def own_color_def
        default_colors_def create_cache_id_def get_instance_def OcpConverter_init_def
        demo_env_def set_alpha_def Let_def)
  obtain ob2 st2 where u2: "unify demo_env (OcpConverter_init False) [Shp (1, 0), Shp (2, 0)]
      ''edge'' ''edges'' None 1 = Inr (ob2, st2)"
    and i2: "o_obj ob2 = Some (Lst [Shp (1, 0), Shp (2, 0)])"
            "st2 = (OcpConverter_init False :: (nat \<times> int) converter)"
    by (simp add: unify_def unify_geometry_def get_color_for_object_def own_color_def
        default_colors_def demo_env_def set_alpha_def Let_def)
  obtain ob3 st3 where u3: "unify demo_env (OcpConverter_init False) [Shp (3, 0)]
      ''vertex'' ''point'' None 1 = Inr (ob3, st3)"
    and i3: "o_obj ob3 = Some (Shp (3, 0))"
            "st3 = (OcpConverter_init False :: (nat \<times> int) converter)"
    by (simp add: unify_def unify_geometry_def get_color_for_object_def own_color_def
        default_colors_def demo_env_def set_alpha_def Let_def)
  from unify_ref_xor_inline[OF u1] i1 have "o_ref ob1 = Some 0 \<and> o_obj ob1 = None"
    by auto
  moreover from unify_ref_xor_inline[OF u2]
  have "o_ref ob2 = None \<and> o_width ob2 = Some 2" by simp
  moreover from unify_ref_xor_inline[OF u3]
  have "o_ref ob3 = None \<and> o_width ob3 = Some 4" by simp
  ultimately show ?thesis using u1 u2 u3 i1 i2 i3
    by (simp add: OcpConverter_init_def)
qed

section \<open>Colour resolution\<close>

text \<open>
  Claim C9. \<^verbatim>\<open>get_color_for_object\<close> resolves the colour in this order: the colour
  passed to the call; otherwise the object's own attribute \<^verbatim>\<open>color\<close>; otherwise, when a
  kind is given, the entry of the table of default colours for the kind; otherwise the
  default, which is the table's entry for the class name of the object, or what
  \<^verbatim>\<open>Color(None)\<close> gives when the class has no entry. An alpha that is given replaces the
  alpha of the colour resolved, and nothing else. In the loop of \<^verbatim>\<open>to_ocp\<close> the entry
  of \<^verbatim>\<open>colors\<close> for the object (a tuple) is taken before the object's attribute
  \<^verbatim>\<open>color\<close>.
\<close>

theorem color_resolution_order:
  "get_color_for_object E obj (Some c) alpha kind = Inr (set_alpha alpha (Color E (Some c))) \<and>
   (own_color E obj = Some oc \<longrightarrow>
      get_color_for_object E obj None alpha kind
        = Inr (set_alpha alpha (Color E (Some oc)))) \<and>
   (own_color E obj = None \<longrightarrow> default_colors k = Some dc \<longrightarrow>
      get_color_for_object E obj None alpha (Some k)
        = Inr (set_alpha alpha (Color E (Some dc)))) \<and>
   (own_color E obj = None \<longrightarrow>
      get_color_for_object E obj None alpha None
        = Inr (set_alpha alpha (Color E (default_colors (class_name_unwrap E obj))))) \<and>
   a_chan (set_alpha (Some al) col) = al \<and>
   percentage (set_alpha (Some al) col) = percentage col \<and>
   set_alpha None col = col \<and>
   (\<not> is_Color c \<longrightarrow>
      to_ocp_object_color E (Some c) cad_color
        = Some (tuple_colour (get_rgba E (Some c) None))) \<and>
   to_ocp_object_color E None (Some oc) = Some (tuple_colour (get_rgba E (Some oc) None)) \<and>
   to_ocp_object_color E None None = None"
  by (simp add: get_color_for_object_def set_alpha_def to_ocp_object_color_def)

text \<open>
  A solid without a colour of its own: the colour passed wins; with the kind
  \<^verbatim>\<open>face\<close> the table gives Violet; without a kind the entry of its class
  \<^verbatim>\<open>TopoDS_Solid\<close> is used; a compound, whose class has no entry, gets
  \<^verbatim>\<open>Color(None)\<close>. With a colour of its own, that one is used.
\<close>

theorem color_resolution_order_witness:
  "own_color demo_env (Shp (7, 0)) = None \<and>
   default_colors ''face'' = Some (ColorName ''Violet'') \<and>
   \<not> is_Color (ColorRGB 1 2 3) \<and>
   get_color_for_object demo_env (Shp (7, 0)) None (Some (1 / 2)) (Some ''face'')
     = Inr \<lparr>percentage = (1, 0, 1), a_chan = 1 / 2\<rparr> \<and>
   get_color_for_object demo_env (Shp (7, 0)) None None None
     = Inr (demo_Color (Some (ColorRGB 232 176 36))) \<and>
   get_color_for_object demo_env (Shp (100, 0)) None None None = Inr (demo_Color None) \<and>
   own_color (demo_env\<lparr>shape_color := (\<lambda>s. Some (ColorRGB 255 0 0))\<rparr>) (Shp (7, 0))
     = Some (ColorRGB 255 0 0) \<and>
   get_color_for_object (demo_env\<lparr>shape_color := (\<lambda>s. Some (ColorRGB 255 0 0))\<rparr>)
       (Shp (7, 0)) None None (Some ''face'')
     = Inr \<lparr>percentage = (1, 0, 0), a_chan = 1\<rparr> \<and>
   to_ocp_object_color demo_env (Some (ColorRGB 1 2 3)) (Some (ColorRGB 255 0 0))
     = Some (tuple_colour (get_rgba demo_env (Some (ColorRGB 1 2 3)) None))"
  using color_resolution_order[where E = demo_env and obj = "Shp (7, 0)"
      and alpha = "Some (1 / 2)" and k = "''face''" and dc = "ColorName ''Violet''"]
    color_resolution_order[where E = demo_env and obj = "Shp (7, 0)" and c = "ColorRGB 1 2 3"
      and alpha = None and cad_color = "Some (ColorRGB 255 0 0)"]
    color_resolution_order[where E = demo_env and obj = "Shp (100, 0)" and alpha = None]
    color_resolution_order[where E = "demo_env\<lparr>shape_color := (\<lambda>s. Some (ColorRGB 255 0 0))\<rparr>"
      and obj = "Shp (7, 0)" and alpha = None and oc = "ColorRGB 255 0 0"
      and kind = "Some ''face''"]
  by (simp add: own_color_def demo_env_def default_colors_def is_Color_def set_alpha_def
      demo_Color_def class_name_unwrap_def)




section \<open>The converter: validation, skipped values, assemblies\<close>

text \<open>
  A call \<^verbatim>\<open>self.to_ocp(obj, names=[name], colors=[c], ...)\<close> on one object, as the
  handlers make it, is what the body of \<open>to_ocp_object\<close> writes out for it.
\<close>

lemma to_ocp_one_object:
  "to_ocp E H [obj] (Some [Some name]) (Some [c]) None None cfg self =
     (case (case make_unique E [Some name] of
              [] \<Rightarrow> (Inr None, self)
            | n # ns \<Rightarrow> to_ocp_object E H cfg obj n
                         (Some (tuple_colour (get_rgba E c None))) self) of
        (Inl e, self1) \<Rightarrow> (Inl e, self1)
      | (Inr r, self1) \<Rightarrow>
          (Inr (finish_group H (Some (KLoc (identity_location E)))
                  (case r of None \<Rightarrow> [] | Some ocp_obj \<Rightarrow> [ocp_obj])), self1))"
  by (cases "make_unique E [Some name]")
     (auto simp: to_ocp_def Let_def split: prod.splits sum.splits option.splits)

text \<open>
  Claim C2. When \<^verbatim>\<open>names\<close>, \<^verbatim>\<open>alphas\<close> or \<^verbatim>\<open>colors\<close> is given with a length other
  than the number of objects, \<^verbatim>\<open>to_ocp\<close> raises a ValueError and the converter is as it
  was at the call: the instance table is unchanged and nothing has been printed. This
  holds whatever the objects and the handlers are, so no object has been classified and
  no handler has run.
\<close>

theorem to_ocp_arity_check:
  assumes "(\<exists>ns. names = Some ns \<and> length ns \<noteq> length cad_objs) \<or>
           (\<exists>al. alphas = Some al \<and> length al \<noteq> length cad_objs) \<or>
           (\<exists>cs. colors = Some cs \<and> length cs \<noteq> length cad_objs)"
  shows "to_ocp E H cad_objs names colors alphas loc cfg self
           \<in> {(Inl names_error, self), (Inl alphas_error, self), (Inl colors_error, self)}"
  using assms
  by (auto simp: to_ocp_def Let_def split: option.splits)

text \<open>Three objects and two names.\<close>

theorem to_ocp_arity_check_witness:
  "length [Some ''a'', Some ''b''] \<noteq> length [demo_solid 7 0, demo_solid 7 10, demo_solid 8 0] \<and>
   to_ocp demo_env demo_ops [demo_solid 7 0, demo_solid 7 10, demo_solid 8 0]
     (Some [Some ''a'', Some ''b'']) None None None demo_settings (OcpConverter_init False)
     = (Inl names_error, OcpConverter_init False)"
  using to_ocp_arity_check[of "Some [Some ''a'', Some ''b'']"
      "[demo_solid 7 0, demo_solid 7 10, demo_solid 8 0]" None None demo_env demo_ops None
      demo_settings "OcpConverter_init False"]
  by (simp add: to_ocp_def)

lemma to_ocp_object_skip:
  assumes "\<not> silently_skipped x" "\<not> passes_filter x"
  shows "to_ocp_object E H cfg x n c self =
           (Inr None, self\<lparr>printed := printed self @ [Skipping_object n (c_type x)]\<rparr>)"
  using assms by (cases x) (simp add: dispatch_def Let_def)

lemma to_ocp_loop_append:
  "length pre = length ns1 \<Longrightarrow> length pre = length cs1 \<Longrightarrow>
   to_ocp_loop E H cfg (pre @ rest) (ns1 @ names) (cs1 @ colors) self =
     (case to_ocp_loop E H cfg pre ns1 cs1 self of
        (Inl e, self1) \<Rightarrow> (Inl e, self1)
      | (Inr nodes1, self1) \<Rightarrow>
          (case to_ocp_loop E H cfg rest names colors self1 of
             (Inl e, self2) \<Rightarrow> (Inl e, self2)
           | (Inr nodes2, self2) \<Rightarrow> (Inr (nodes1 @ nodes2), self2)))"
proof (induction pre arbitrary: ns1 cs1 self)
  case Nil
  then show ?case by (simp split: prod.splits sum.splits)
next
  case (Cons x pre)
  then obtain n ns c cs where ns1: "ns1 = n # ns" and cs1: "cs1 = c # cs"
    by (cases ns1; cases cs1) auto
  with Cons.prems have l: "length pre = length ns" "length pre = length cs" by simp_all
  show ?case unfolding ns1 cs1
    by (simp add: Cons.IH[OF l] split: prod.splits sum.splits)
qed

text \<open>
  Claim C8. A value that is not skipped silently and fails every test of the filter
  produces no node and no error: the body of the loop leaves the converter as it was
  but for one printed line, the skipping message with the slot name and the type of
  the value, and the loop goes on with the objects after it. So the nodes of a call are
  those of the objects before the value followed by those of the objects after it.
\<close>

theorem unrecognized_value_is_skipped:
  assumes "\<not> silently_skipped x" "\<not> passes_filter x"
  shows "to_ocp_object E H cfg x n c self =
           (Inr None, self\<lparr>printed := printed self @ [Skipping_object n (c_type x)]\<rparr>) \<and>
         to_ocp_loop E H cfg (x # rest) (n # names) (c # colors) self =
           to_ocp_loop E H cfg rest names colors
             (self\<lparr>printed := printed self @ [Skipping_object n (c_type x)]\<rparr>) \<and>
         (length pre = length ns1 \<and> length pre = length cs1 \<longrightarrow>
            to_ocp_loop E H cfg (pre @ x # rest) (ns1 @ n # names) (cs1 @ c # colors) self =
              (case to_ocp_loop E H cfg pre ns1 cs1 self of
                 (Inl e, self1) \<Rightarrow> (Inl e, self1)
               | (Inr nodes1, self1) \<Rightarrow>
                   (case to_ocp_loop E H cfg rest names colors
                           (self1\<lparr>printed := printed self1 @ [Skipping_object n (c_type x)]\<rparr>) of
                      (Inl e, self2) \<Rightarrow> (Inl e, self2)
                    | (Inr nodes2, self2) \<Rightarrow> (Inr (nodes1 @ nodes2), self2))))"
proof -
  have a: "\<And>s. to_ocp_object E H cfg x n c s =
           (Inr None, s\<lparr>printed := printed s @ [Skipping_object n (c_type x)]\<rparr>)"
    by (rule to_ocp_object_skip[OF assms])
  have b: "\<And>s. to_ocp_loop E H cfg (x # rest) (n # names) (c # colors) s =
           to_ocp_loop E H cfg rest names colors
             (s\<lparr>printed := printed s @ [Skipping_object n (c_type x)]\<rparr>)"
    by (simp add: a split: prod.splits sum.splits)
  show ?thesis
    using a b by (auto simp: to_ocp_loop_append split: prod.splits sum.splits)
qed

text \<open>
  An unrecognised object between two solids of the same geometry: the call returns the
  group of the two solids, both with the reference 0, one instance, and has printed the
  skipping message with the name \<^verbatim>\<open>junk\<close>.
\<close>

theorem unrecognized_value_is_skipped_witness:
  "\<not> silently_skipped demo_unrecognized \<and> \<not> passes_filter demo_unrecognized \<and>
   (\<exists>o1 o2 self1.
      to_ocp demo_env demo_ops [demo_solid 7 0, demo_unrecognized, demo_solid 7 10]
        (Some [Some ''a'', Some ''junk'', Some ''b'']) None None None demo_settings
        (OcpConverter_init False)
        = (Inr (Group None (Some (KLoc 0)) [Object o1, Object o2]), self1) \<and>
      o_name o1 = ''a'' \<and> o_name o2 = ''b'' \<and> o_ref o1 = Some 0 \<and> o_ref o2 = Some 0 \<and>
      o_loc o1 = Some (KLoc 0) \<and> o_loc o2 = Some (KLoc 10) \<and>
      instances self1 = [((7, 0), ''digest'')] \<and>
      Skipping_object (Some ''junk'') ''object'' \<in> set (printed self1))"
proof -
  have s: "\<not> silently_skipped demo_unrecognized" "\<not> passes_filter demo_unrecognized"
    by (simp_all add: silently_skipped_def passes_filter_def demo_unrecognized_def
        isinstance_def holds_def is_wrapped_def is_cadquery_def is_cadquery_assembly_def
        is_build123d_def is_topods_shape_def has_attrs_def)
  have d: "dispatch (demo_solid g l) False = Handle_shapes" for g l
    by (simp add: dispatch_def demo_solid_def silently_skipped_def passes_filter_def
        isinstance_def holds_def is_wrapped_def is_cadquery_def is_cadquery_assembly_def
        is_build123d_def is_topods_shape_def has_attrs_def is_topods_compound_obj_def
        is_build123d_assembly_def is_build123d_compound_def is_build123d_shape_def)
  have t: "c_type demo_unrecognized = ''object''" by (simp add: demo_unrecognized_def)
  note step = unrecognized_value_is_skipped[OF s, of demo_env demo_ops demo_settings
      "Some ''junk''" None]
  have h: "handle_shapes demo_env (demo_solid g l) (Some nm) None demo_settings self =
      (case get_instance demo_env (debug self 0 ''handle_shapes (TopoDS_Shape) (TopoDS_Solid)''
               (Some nm)) (Shp (g, l)) ''solid'' nm (demo_Color (Some (ColorRGB 232 176 36)))
               ''digest'' of
         Inl e \<Rightarrow> (Inl e, debug self 0 ''handle_shapes (TopoDS_Shape) (TopoDS_Solid)'' (Some nm))
       | Inr (ob, self2) \<Rightarrow> (Inr (Object ob), self2))"
    if "g < 100" for g l nm and self :: "(nat \<times> int) converter"
    using that
    by (simp add: handle_shapes_def demo_solid_def is_topods_shape_def isinstance_def
        demo_env_def demo_settings_def get_kind_def get_name_def unify_def unify_geometry_def
        get_color_for_object_def own_color_def default_colors_def create_cache_id_def
        set_alpha_def Let_def split: sum.splits)
  have o: "to_ocp_object demo_env demo_ops demo_settings (demo_solid g l) (Some nm) None self =
      (case handle_shapes demo_env (demo_solid g l) (Some nm) None demo_settings self of
         (Inl e, self1) \<Rightarrow> (Inl e, self1)
       | (Inr ocp_obj, self1) \<Rightarrow> (Inr (Some ocp_obj), debug self1 0 ''=>'' None))"
    for g l nm and self :: "(nat \<times> int) converter"
    using d[of g l]
    by (simp add: demo_solid_def demo_settings_def Let_def leaf_handler_def
        to_ocp_object_color_def split: prod.splits sum.splits)
  have mu: "make_unique demo_env ns = ns" for ns by (simp add: demo_env_def)
  have il: "identity_location demo_env = 0" by (simp add: demo_env_def)
  have rl: "relocated demo_env (7, l) = (7, 0)" for l
    by (simp add: relocated_def demo_env_def)
  have lc: "Location demo_env (7, l) = l" for l by (simp add: demo_env_def)
  have rm: "downcast demo_env (Moved demo_env (7, l) (Inverted demo_env l)) = (7, 0)" for l
    by (simp add: demo_env_def)
  have A: "\<exists>o1 s1. to_ocp_object demo_env demo_ops demo_settings (demo_solid 7 0) (Some ''a'')
        None (OcpConverter_init False) = (Inr (Some (Object o1)), s1) \<and>
      o_name o1 = ''a'' \<and> o_ref o1 = Some 0 \<and> o_loc o1 = Some (KLoc 0) \<and>
      instances s1 = [((7, 0), ''digest'')]"
    by (simp add: o h get_instance_def OcpConverter_init_def debug_def Let_def
        lc rm)
  have B: "\<exists>o2 s2. to_ocp_object demo_env demo_ops demo_settings (demo_solid 7 10) (Some ''b'')
        None s = (Inr (Some (Object o2)), s2) \<and>
      o_name o2 = ''b'' \<and> o_ref o2 = Some 0 \<and> o_loc o2 = Some (KLoc 10) \<and>
      instances s2 = [((7, 0), ''digest'')] \<and> set (printed s) \<subseteq> set (printed s2)"
    if "instances s = [((7, 0), ''digest'')]" for s :: "(nat \<times> int) converter"
    using that
    by (auto simp: o h get_instance_def debug_def Let_def lc rm)
  from A obtain o1 s1 where a: "to_ocp_object demo_env demo_ops demo_settings (demo_solid 7 0)
        (Some ''a'') None (OcpConverter_init False) = (Inr (Some (Object o1)), s1)"
    and a': "o_name o1 = ''a''" "o_ref o1 = Some 0" "o_loc o1 = Some (KLoc 0)"
      "instances s1 = [((7, 0), ''digest'')]" by blast
  define s1' where "s1' = s1\<lparr>printed := printed s1 @ [Skipping_object (Some ''junk'') ''object'']\<rparr>"
  have i1: "instances s1' = [((7, 0), ''digest'')]" by (simp add: s1'_def a')
  from B[OF i1] obtain o2 s2 where b: "to_ocp_object demo_env demo_ops demo_settings
        (demo_solid 7 10) (Some ''b'') None s1' = (Inr (Some (Object o2)), s2)"
    and b': "o_name o2 = ''b''" "o_ref o2 = Some 0" "o_loc o2 = Some (KLoc 10)"
      "instances s2 = [((7, 0), ''digest'')]" "set (printed s1') \<subseteq> set (printed s2)" by blast
  have j: "to_ocp_loop demo_env demo_ops demo_settings [demo_unrecognized, demo_solid 7 10]
        [Some ''junk'', Some ''b''] [None, None] s1 =
      to_ocp_loop demo_env demo_ops demo_settings [demo_solid 7 10] [Some ''b''] [None] s1'"
    using step[THEN conjunct2, THEN conjunct1, of "[demo_solid 7 10]" "[Some ''b'']" "[None]" s1]
    by (simp add: t s1'_def)
  have l: "to_ocp_loop demo_env demo_ops demo_settings
        [demo_solid 7 0, demo_unrecognized, demo_solid 7 10]
        [Some ''a'', Some ''junk'', Some ''b''] [None, None, None] (OcpConverter_init False)
      = (Inr [Object o1, Object o2], s2)"
    using a j b by simp
  have r: "replicate (length [demo_solid 7 0, demo_unrecognized, demo_solid 7 10]) None
      = [None, None, None :: 'z option]" by simp
  have f: "to_ocp demo_env demo_ops [demo_solid 7 0, demo_unrecognized, demo_solid 7 10]
        (Some [Some ''a'', Some ''junk'', Some ''b'']) None None None demo_settings
        (OcpConverter_init False)
        = (Inr (Group None (Some (KLoc 0)) [Object o1, Object o2]), s2)"
  proof -
    have fg: "finish_group demo_ops (Some (KLoc 0)) [Object o1, Object o2]
        = Group None (Some (KLoc 0)) [Object o1, Object o2 :: (nat \<times> int, int) node]"
      by (simp add: finish_group_def objects_def demo_ops_def)
    show ?thesis unfolding to_ocp_def Let_def r
      by (simp add: mu il l fg del: to_ocp_loop.simps)
  qed
  have p: "Skipping_object (Some ''junk'') ''object'' \<in> set (printed s2)"
    using b'(5) by (auto simp: s1'_def)
  show ?thesis using s f a' b' p by blast
qed

lemma to_ocp_object_assembly:
  assumes "dispatch x (unroll_compounds cfg) = Handle_build123d_assembly"
  shows "to_ocp_object E H cfg x n c self = (Inl assembly_call_error, self)"
  using assms by (cases x) (simp add: Let_def leaf_handler_def)

text \<open>
  Claim C6, the code as it is. An object that reaches the test
  \<^verbatim>\<open>is_build123d_assembly\<close> makes \<^verbatim>\<open>to_ocp\<close> raise the TypeError of the first call of
  \<^verbatim>\<open>handle_build123d_assembly\<close>: no group is built, no child is converted and no
  placement is composed. The example is an assembly with one part.
\<close>

theorem to_ocp_assembly_raises:
  "is_build123d_assembly demo_assembly \<and>
   to_ocp demo_env demo_ops [demo_assembly] None None None None demo_settings
     (OcpConverter_init False)
     = (Inl assembly_call_error, OcpConverter_init False)"
proof -
  have d: "dispatch demo_assembly (unroll_compounds demo_settings) = Handle_build123d_assembly"
    by (simp add: dispatch_def demo_assembly_def silently_skipped_def passes_filter_def
        isinstance_def holds_def is_wrapped_def is_topods_compound_obj_def
        is_build123d_assembly_def is_build123d_compound_def is_build123d_shape_def
        has_attrs_def demo_settings_def)
  have a: "is_build123d_assembly demo_assembly"
    by (simp add: demo_assembly_def is_build123d_assembly_def is_build123d_compound_def
        is_build123d_shape_def has_attrs_def isinstance_def)
  show ?thesis
    using a by (simp add: to_ocp_def to_ocp_object_assembly[OF d])
qed

end
